theory Spec2Isabelle
  imports Complex_Main
begin

section \<open>The bench-press analyzer of ml-backend/app/logic.py\<close>

text \<open>
  The theory embeds \<^verbatim>\<open>WorkoutAnalyzer.analyze_video\<close>: the per-frame decision logic
  (elbow smoothing, hip-lift detection, the rep state machine with the shallow-rep
  judgment, the time-series record) and the final result dictionary.

  Conventions of the embedding:
  \<^item> Python floats are modelled as \<^typ>\<open>real\<close> (exact arithmetic, no rounding), Python
    ints as \<^typ>\<open>int\<close>.
  \<^item> The object detector, the pose estimator and the video decoder are outside this
    code; what they hand to the loop on one frame is a \<open>frame_input\<close>: the bench box
    and the bar box that survive the class and confidence test of the detection loop,
    and the six landmark heights when a pose was found.
  \<^item> The instance attributes of \<^verbatim>\<open>WorkoutAnalyzer\<close> that the loop mutates are the
    record \<open>analyzer\<close>; the local variables of \<^verbatim>\<open>analyze_video\<close> are the record
    \<open>run_state\<close>. Both are passed explicitly and returned updated.
  \<^item> Every \<^verbatim>\<open>raise\<close> of the function and every division is a branch returning
    \<open>Inl\<close> of an \<open>error\<close>. The instance is returned in either case, as the mutation
    made before an exception stays on the object.
  \<^item> Drawing, video writing, the ffmpeg conversion and the JSON dump do not influence
    the returned dictionary and are left out.
\<close>

subsection \<open>Configuration constants\<close>

definition HIP_LIFT_RATIO :: real where
  "HIP_LIFT_RATIO = 0.5"

definition SHALLOW_REP_RATIO :: real where
  "SHALLOW_REP_RATIO = 0.05"

definition SMOOTHING_WINDOW_SIZE :: nat where
  "SMOOTHING_WINDOW_SIZE = 5"

definition STATUS_OK :: string where
  "STATUS_OK = ''OK''"

definition STATUS_FAIL_HIP :: string where
  "STATUS_FAIL_HIP = ''FAIL: HIP LIFT''"

definition STATUS_FAIL_SHALLOW :: string where
  "STATUS_FAIL_SHALLOW = ''FAIL: ELBOW DEPTH''"

definition STATUS_GOOD_REP :: string where
  "STATUS_GOOD_REP = ''GOOD REP''"

definition STATUS_EGO_LIFT :: string where
  "STATUS_EGO_LIFT = ''EGO LIFT''"

subsection \<open>Data\<close>

datatype error = FileNotFoundError | ValueError | RuntimeError | ZeroDivisionError | TypeError

text \<open>A detection box \<^verbatim>\<open>(int(x1), int(y1), int(x2), int(y2))\<close>.\<close>

record box =
  box_x1 :: int
  box_y1 :: int
  box_x2 :: int
  box_y2 :: int

text \<open>The normalised heights \<^verbatim>\<open>.y\<close> of the six landmarks the loop reads.\<close>

record landmarks =
  left_hip_y :: real
  right_hip_y :: real
  left_elbow_y :: real
  right_elbow_y :: real
  left_shoulder_y :: real
  right_shoulder_y :: real

text \<open>
  What one frame yields: \<^verbatim>\<open>bench_box\<close> and \<^verbatim>\<open>bar_box\<close> after the detection loop
  (\<open>None\<close> as in the source), and \<^verbatim>\<open>pose_results.pose_landmarks\<close>.
\<close>

record frame_input =
  bench_box :: "box option"
  bar_box :: "box option"
  pose_landmarks :: "landmarks option"

text \<open>The attributes set by \<^verbatim>\<open>__init__\<close> under "State variables for rep judgment".\<close>

record analyzer =
  is_in_rep :: bool
  min_bar_shoulder_dist :: real
  min_elbow_y_at_bottom :: real

definition init_analyzer :: analyzer where
  "init_analyzer =
     \<lparr>is_in_rep = False, min_bar_shoulder_dist = 1000, min_elbow_y_at_bottom = 2000\<rparr>"

text \<open>One dictionary of \<^verbatim>\<open>time_series_data\<close>.\<close>

record ts_entry =
  ts_frame :: int
  ts_timestamp :: real
  ts_hip_y :: "real option"
  ts_elbow_y :: "real option"
  ts_shoulder_y :: "real option"
  ts_bench_detected :: bool
  ts_bar_detected :: bool

text \<open>The local variables of \<^verbatim>\<open>analyze_video\<close> under "Analysis state".\<close>

record run_state =
  baseline_hip_bench_dist :: "real option"
  dynamic_hip_threshold :: "real option"
  hip_lift_status :: string
  shallow_rep_status :: string
  time_series_data :: "ts_entry list"
  elbow_y_buffer :: "real list"
  frame_idx :: int

definition init_run_state :: run_state where
  "init_run_state =
     \<lparr>baseline_hip_bench_dist = None, dynamic_hip_threshold = None,
      hip_lift_status = STATUS_OK, shallow_rep_status = STATUS_OK,
      time_series_data = [], elbow_y_buffer = [], frame_idx = 0\<rparr>"

text \<open>
  The video as \<^verbatim>\<open>analyze_video\<close> meets it: the outcome of the four checks that can
  raise before the loop, the properties read from the capture, and the frames that
  \<^verbatim>\<open>cap.read()\<close> returns until it fails.
\<close>

record video =
  input_exists :: bool
  model_exists :: bool
  cap_is_opened :: bool
  writer_is_opened :: bool
  cap_fps :: int
  cap_height :: int
  cap_total_frames :: int
  cap_frames :: "frame_input list"

text \<open>The dictionary \<^verbatim>\<open>results\<close> returned by \<^verbatim>\<open>analyze_video\<close>.\<close>

record results =
  res_overall_status :: string
  res_hip_lift_status :: string
  res_shallow_rep_status :: string
  res_hip_lift_detected :: bool
  res_shallow_rep_detected :: bool
  res_time_series_data :: "ts_entry list"
  res_total_frames :: int
  res_fps :: int
  res_video_duration :: real

subsection \<open>Python primitives\<close>

text \<open>\<^verbatim>\<open>a / b\<close> on two ints: true division, raising on a zero divisor.\<close>

definition py_truediv :: "int \<Rightarrow> int \<Rightarrow> error + real" where
  "py_truediv a b =
     (if b = 0 then Inl ZeroDivisionError else Inr (real_of_int a / real_of_int b))"

text \<open>The truth value of a float: \<^verbatim>\<open>0.0\<close> is false, every other number is true.\<close>

definition truthy :: "real \<Rightarrow> bool" where
  "truthy x = (x \<noteq> 0)"

text \<open>
  \<^verbatim>\<open>float(x) if x else None\<close> on a variable that is \<^verbatim>\<open>None\<close> or a float: the
  condition is the truth value of \<open>x\<close>, so both \<^verbatim>\<open>None\<close> and \<^verbatim>\<open>0.0\<close> give
  \<^verbatim>\<open>None\<close>.
\<close>

definition float_if_truthy :: "real option \<Rightarrow> real option" where
  "float_if_truthy v =
     (case v of None \<Rightarrow> None | Some x \<Rightarrow> if truthy x then Some x else None)"

text \<open>
  \<^verbatim>\<open>deque(maxlen=n).append(x)\<close>: the new element goes to the right end, and what
  exceeds \<open>n\<close> elements is discarded from the left end.
\<close>

definition deque_append :: "nat \<Rightarrow> 'a list \<Rightarrow> 'a \<Rightarrow> 'a list" where
  "deque_append maxlen d x = (let ys = d @ [x] in drop (length ys - maxlen) ys)"

subsection \<open>The body of the frame loop\<close>

text \<open>"Calculate average positions": the three heights in pixels.\<close>

definition current_hip_y :: "int \<Rightarrow> landmarks \<Rightarrow> real" where
  "current_hip_y height lm = ((left_hip_y lm + right_hip_y lm) / 2) * real_of_int height"

definition current_elbow_y :: "int \<Rightarrow> landmarks \<Rightarrow> real" where
  "current_elbow_y height lm =
     ((left_elbow_y lm + right_elbow_y lm) / 2) * real_of_int height"

definition current_shoulder_y :: "int \<Rightarrow> landmarks \<Rightarrow> real" where
  "current_shoulder_y height lm =
     ((left_shoulder_y lm + right_shoulder_y lm) / 2) * real_of_int height"

text \<open>
  "Apply smoothing to elbow": \<^verbatim>\<open>sum(elbow_y_buffer) / len(elbow_y_buffer)\<close>, read
  right after the append, where the buffer holds at least the sample just appended
  (lemma \<open>deque_append_nonempty\<close> below), so this division cannot raise.
\<close>

definition smoothed_elbow_y :: "real list \<Rightarrow> real" where
  "smoothed_elbow_y buf = sum_list buf / real (length buf)"

text \<open>
  "Hip Lift Detection", the body of \<^verbatim>\<open>if bench_box:\<close> (a non-empty tuple is true, so
  the test is the presence of the box). Adding \<^verbatim>\<open>None\<close> to a number raises TypeError;
  the two variables are only ever assigned together.
\<close>

definition hip_lift_detection :: "box \<Rightarrow> real \<Rightarrow> run_state \<Rightarrow> error + run_state" where
  "hip_lift_detection bench hip_y st =
     (let avg_bench_top_y = real_of_int (box_y1 bench);
          current_hip_bench_dist = \<bar>hip_y - avg_bench_top_y\<bar>;
          st1 = (if baseline_hip_bench_dist st = None
                 then st\<lparr>baseline_hip_bench_dist := Some current_hip_bench_dist,
                         dynamic_hip_threshold :=
                           Some (current_hip_bench_dist * HIP_LIFT_RATIO)\<rparr>
                 else st)
      in case (baseline_hip_bench_dist st1, dynamic_hip_threshold st1) of
           (Some b, Some t) \<Rightarrow>
             Inr (if current_hip_bench_dist > b + t
                  then st1\<lparr>hip_lift_status := STATUS_FAIL_HIP\<rparr>
                  else st1)
         | _ \<Rightarrow> Inl TypeError)"

text \<open>"Calculate torso length for dynamic threshold".\<close>

definition avg_torso_length :: "real \<Rightarrow> real \<Rightarrow> real" where
  "avg_torso_length shoulder_y hip_y =
     (if truthy shoulder_y \<and> truthy hip_y then \<bar>shoulder_y - hip_y\<bar> else 100)"

definition dynamic_shallow_threshold :: "real \<Rightarrow> real \<Rightarrow> real" where
  "dynamic_shallow_threshold shoulder_y hip_y =
     avg_torso_length shoulder_y hip_y * SHALLOW_REP_RATIO"

text \<open>The conditions of the \<^verbatim>\<open>if\<close> / \<^verbatim>\<open>elif\<close> / \<^verbatim>\<open>elif\<close> chain, as written.\<close>

definition rep_start_cond :: "analyzer \<Rightarrow> real \<Rightarrow> bool" where
  "rep_start_cond self d = (\<not> is_in_rep self \<and> d < min_bar_shoulder_dist self - 30)"

definition rep_progress_cond :: "analyzer \<Rightarrow> real \<Rightarrow> bool" where
  "rep_progress_cond self d = (is_in_rep self \<and> d < min_bar_shoulder_dist self)"

definition rep_end_cond :: "analyzer \<Rightarrow> real \<Rightarrow> bool" where
  "rep_end_cond self d = (is_in_rep self \<and> d > min_bar_shoulder_dist self + 30)"

definition current_bar_shoulder_dist :: "box \<Rightarrow> real \<Rightarrow> real" where
  "current_bar_shoulder_dist bar shoulder_y = \<bar>real_of_int (box_y2 bar) - shoulder_y\<bar>"

text \<open>
  "Shallow Rep Detection (State Machine)", the body of \<^verbatim>\<open>if bar_box:\<close>. The first
  condition that holds decides; the judgment of REP END reads the tracker as it was
  left by the earlier frames.
\<close>

definition shallow_rep_detection ::
  "box \<Rightarrow> box option \<Rightarrow> real \<Rightarrow> real \<Rightarrow> real \<Rightarrow> analyzer \<Rightarrow> run_state
     \<Rightarrow> analyzer \<times> run_state" where
  "shallow_rep_detection bar bench shoulder_y hip_y avg_elbow_line_y self st =
     (let d = current_bar_shoulder_dist bar shoulder_y;
          threshold = dynamic_shallow_threshold shoulder_y hip_y
      in if rep_start_cond self d then
           (self\<lparr>is_in_rep := True, min_bar_shoulder_dist := d,
                  min_elbow_y_at_bottom := avg_elbow_line_y\<rparr>, st)
         else if rep_progress_cond self d then
           (self\<lparr>min_bar_shoulder_dist := d, min_elbow_y_at_bottom := avg_elbow_line_y\<rparr>,
            st)
         else if rep_end_cond self d then
           (self\<lparr>is_in_rep := False, min_bar_shoulder_dist := 1000,
                  min_elbow_y_at_bottom := 2000\<rparr>,
            case bench of
              None \<Rightarrow> st
            | Some b \<Rightarrow>
                if min_elbow_y_at_bottom self > real_of_int (box_y1 b) + threshold
                then st\<lparr>shallow_rep_status := STATUS_FAIL_SHALLOW\<rparr>
                else st)
         else (self, st))"

text \<open>
  The body of \<^verbatim>\<open>if pose_results.pose_landmarks:\<close>. Both detections are nested in
  it, so a frame without a pose changes nothing.
\<close>

definition analyze_pose ::
  "int \<Rightarrow> analyzer \<Rightarrow> run_state \<Rightarrow> frame_input \<Rightarrow> analyzer \<times> (error + run_state)" where
  "analyze_pose height self st fr =
     (case pose_landmarks fr of
        None \<Rightarrow> (self, Inr st)
      | Some lm \<Rightarrow>
          let hip_y = current_hip_y height lm;
              elbow_y = current_elbow_y height lm;
              shoulder_y = current_shoulder_y height lm;
              buf = deque_append SMOOTHING_WINDOW_SIZE (elbow_y_buffer st) elbow_y;
              st1 = st\<lparr>elbow_y_buffer := buf\<rparr>
          in case (case bench_box fr of
                     None \<Rightarrow> Inr st1
                   | Some bench \<Rightarrow> hip_lift_detection bench hip_y st1) of
               Inl e \<Rightarrow> (self, Inl e)
             | Inr st2 \<Rightarrow>
                 (case bar_box fr of
                    None \<Rightarrow> (self, Inr st2)
                  | Some bar \<Rightarrow>
                      (case shallow_rep_detection bar (bench_box fr) shoulder_y hip_y
                              (smoothed_elbow_y buf) self st2 of
                         (self', st3) \<Rightarrow> (self', Inr st3))))"

text \<open>"Store time series data": the dictionary appended on every frame.\<close>

definition store_time_series ::
  "int \<Rightarrow> int \<Rightarrow> run_state \<Rightarrow> frame_input \<Rightarrow> error + run_state" where
  "store_time_series fps height st fr =
     (case py_truediv (frame_idx st) fps of
        Inl e \<Rightarrow> Inl e
      | Inr timestamp \<Rightarrow>
          Inr (st\<lparr>time_series_data := time_series_data st @
                 [\<lparr>ts_frame = frame_idx st,
                   ts_timestamp = timestamp,
                   ts_hip_y =
                     float_if_truthy (map_option (current_hip_y height) (pose_landmarks fr)),
                   ts_elbow_y =
                     float_if_truthy (map_option (current_elbow_y height) (pose_landmarks fr)),
                   ts_shoulder_y =
                     float_if_truthy
                       (map_option (current_shoulder_y height) (pose_landmarks fr)),
                   ts_bench_detected = (bench_box fr \<noteq> None),
                   ts_bar_detected = (bar_box fr \<noteq> None)\<rparr>]\<rparr>))"

text \<open>One pass through the body of the \<^verbatim>\<open>while\<close> loop, for a frame that was read.\<close>

definition process_frame ::
  "int \<Rightarrow> int \<Rightarrow> analyzer \<Rightarrow> run_state \<Rightarrow> frame_input \<Rightarrow> analyzer \<times> (error + run_state)" where
  "process_frame fps height self st fr =
     (case analyze_pose height self (st\<lparr>frame_idx := frame_idx st + 1\<rparr>) fr of
        (self', Inl e) \<Rightarrow> (self', Inl e)
      | (self', Inr st') \<Rightarrow> (self', store_time_series fps height st' fr))"

text \<open>The loop: it ends when the frames are exhausted, or on the first exception.\<close>

fun run_frames ::
  "int \<Rightarrow> int \<Rightarrow> analyzer \<Rightarrow> run_state \<Rightarrow> frame_input list \<Rightarrow> analyzer \<times> (error + run_state)" where
  "run_frames fps height self st [] = (self, Inr st)"
| "run_frames fps height self st (fr # frs) =
     (case process_frame fps height self st fr of
        (self', Inl e) \<Rightarrow> (self', Inl e)
      | (self', Inr st') \<Rightarrow> run_frames fps height self' st' frs)"

text \<open>"Determine Overall Status" and the dictionary \<^verbatim>\<open>results\<close>.\<close>

definition overall_status :: "run_state \<Rightarrow> string" where
  "overall_status st =
     (if hip_lift_status st \<noteq> STATUS_OK \<or> shallow_rep_status st \<noteq> STATUS_OK
      then STATUS_EGO_LIFT else STATUS_GOOD_REP)"

definition video_duration :: "int \<Rightarrow> int \<Rightarrow> real" where
  "video_duration total_frames fps =
     (if fps > 0 then real_of_int total_frames / real_of_int fps else 0)"

definition make_results :: "video \<Rightarrow> run_state \<Rightarrow> results" where
  "make_results v st =
     \<lparr>res_overall_status = overall_status st,
      res_hip_lift_status = hip_lift_status st,
      res_shallow_rep_status = shallow_rep_status st,
      res_hip_lift_detected = (hip_lift_status st \<noteq> STATUS_OK),
      res_shallow_rep_detected = (shallow_rep_status st \<noteq> STATUS_OK),
      res_time_series_data = time_series_data st,
      res_total_frames = cap_total_frames v,
      res_fps = cap_fps v,
      res_video_duration = video_duration (cap_total_frames v) (cap_fps v)\<rparr>"

text \<open>
  \<^verbatim>\<open>analyze_video\<close>. The tracker attributes of \<open>self\<close> are read and written by the
  loop as they are; only the local variables start from \<open>init_run_state\<close>.
\<close>

definition analyze_video :: "analyzer \<Rightarrow> video \<Rightarrow> analyzer \<times> (error + results)" where
  "analyze_video self v =
     (if \<not> input_exists v then (self, Inl FileNotFoundError)
      else if \<not> model_exists v then (self, Inl FileNotFoundError)
      else if \<not> cap_is_opened v then (self, Inl ValueError)
      else if \<not> writer_is_opened v then (self, Inl RuntimeError)
      else case run_frames (cap_fps v) (cap_height v) self init_run_state (cap_frames v) of
             (self', Inl e) \<Rightarrow> (self', Inl e)
           | (self', Inr st) \<Rightarrow> (self', Inr (make_results v st)))"

subsection \<open>Example inputs\<close>

text \<open>
  Builders for concrete frames and videos, used where a statement is evaluated. A pose
  is given by the normalised heights of hips, elbows and shoulders (left and right
  alike); a box by its top and bottom edge.
\<close>

definition example_landmarks :: "real \<Rightarrow> real \<Rightarrow> real \<Rightarrow> landmarks" where
  "example_landmarks hip elbow shoulder =
     \<lparr>left_hip_y = hip, right_hip_y = hip, left_elbow_y = elbow, right_elbow_y = elbow,
      left_shoulder_y = shoulder, right_shoulder_y = shoulder\<rparr>"

definition example_box :: "int \<Rightarrow> int \<Rightarrow> box" where
  "example_box y_top y_bottom =
     \<lparr>box_x1 = 100, box_y1 = y_top, box_x2 = 500, box_y2 = y_bottom\<rparr>"

definition example_frame ::
  "int option \<Rightarrow> int option \<Rightarrow> (real \<times> real \<times> real) option \<Rightarrow> frame_input" where
  "example_frame bench_top bar_bottom pose =
     \<lparr>bench_box = map_option (\<lambda>t. example_box t (t + 50)) bench_top,
      bar_box = map_option (\<lambda>b. example_box (b - 20) b) bar_bottom,
      pose_landmarks = map_option (\<lambda>(h, e, s). example_landmarks h e s) pose\<rparr>"

text \<open>A video of height 1000 that opens and can be written.\<close>

definition example_video :: "int \<Rightarrow> frame_input list \<Rightarrow> video" where
  "example_video fps frs =
     \<lparr>input_exists = True, model_exists = True, cap_is_opened = True,
      writer_is_opened = True, cap_fps = fps, cap_height = 1000,
      cap_total_frames = int (length frs), cap_frames = frs\<rparr>"

text \<open>
  Three frames: a calibration frame that also starts a rep; a frame with the hips
  lifted on which the rep ends with the elbows too high; a compliant frame.
\<close>

definition sticky_frames :: "frame_input list" where
  "sticky_frames =
     [example_frame (Some 400) (Some 400) (Some (0.5, 0.6, 0.3)),
      example_frame (Some 400) (Some 500) (Some (0.2, 0.6, 0.3)),
      example_frame (Some 400) (Some 400) (Some (0.5, 0.35, 0.3))]"

text \<open>A tracker with a rep open: minimum distance 100, elbow height 600 at that point.\<close>

definition rep_open_analyzer :: analyzer where
  "rep_open_analyzer =
     \<lparr>is_in_rep = True, min_bar_shoulder_dist = 100, min_elbow_y_at_bottom = 600\<rparr>"

subsection \<open>Notions used in the statements\<close>

text \<open>
  The distance between hip height and bench top on a frame that has both a pose and a
  bench box (the frames on which the hip-lift block runs), and that distance on the
  first such frame of a list.
\<close>

definition hip_bench_dist :: "int \<Rightarrow> frame_input \<Rightarrow> real option" where
  "hip_bench_dist height fr =
     (case (pose_landmarks fr, bench_box fr) of
        (Some lm, Some bench) \<Rightarrow>
          Some \<bar>current_hip_y height lm - real_of_int (box_y1 bench)\<bar>
      | _ \<Rightarrow> None)"

fun first_calibration :: "int \<Rightarrow> frame_input list \<Rightarrow> real option" where
  "first_calibration height [] = None"
| "first_calibration height (fr # frs) =
     (case hip_bench_dist height fr of
        Some d \<Rightarrow> Some d
      | None \<Rightarrow> first_calibration height frs)"

text \<open>
  Three frames: a pose without a bench; the first frame with both (hip 500, bench top
  400); a frame with the hips at 200.
\<close>

definition calibration_frames :: "frame_input list" where
  "calibration_frames =
     [example_frame None (Some 400) (Some (0.7, 0.6, 0.3)),
      example_frame (Some 400) (Some 400) (Some (0.5, 0.6, 0.3)),
      example_frame (Some 400) (Some 400) (Some (0.2, 0.6, 0.3))]"

text \<open>Three frames without a bench box, the hips moving from 500 to 100.\<close>

definition benchless_frames :: "frame_input list" where
  "benchless_frames =
     [example_frame None (Some 400) (Some (0.5, 0.6, 0.3)),
      example_frame None (Some 400) (Some (0.1, 0.6, 0.3)),
      example_frame None None None]"

text \<open>The elbow heights of the frames that have a pose, in frame order.\<close>

fun elbow_samples :: "int \<Rightarrow> frame_input list \<Rightarrow> real list" where
  "elbow_samples height [] = []"
| "elbow_samples height (fr # frs) =
     (case pose_landmarks fr of
        None \<Rightarrow> elbow_samples height frs
      | Some lm \<Rightarrow> current_elbow_y height lm # elbow_samples height frs)"

text \<open>
  Two frames on which the bar comes down (distance 500, then 100) and the video ends
  with the rep open; the elbows are at 600, the bench top at 400.
\<close>

definition unfinished_rep_frames :: "frame_input list" where
  "unfinished_rep_frames =
     [example_frame (Some 400) (Some 800) (Some (0.5, 0.6, 0.3)),
      example_frame (Some 400) (Some 400) (Some (0.5, 0.6, 0.3))]"

text \<open>
  Seven frames with elbow heights 100, 200, none (no pose), 300, 400, 500, 600; only
  the last frame has a bar box.
\<close>

definition smoothing_frames :: "frame_input list" where
  "smoothing_frames =
     [example_frame None None (Some (0.5, 0.1, 0.3)),
      example_frame None None (Some (0.5, 0.2, 0.3)),
      example_frame None None None,
      example_frame None None (Some (0.5, 0.3, 0.3)),
      example_frame None None (Some (0.5, 0.4, 0.3)),
      example_frame None None (Some (0.5, 0.5, 0.3)),
      example_frame None (Some 400) (Some (0.5, 0.6, 0.3))]"

text \<open>A tracker with a rep open: minimum distance 100, elbow height 403 at that point.\<close>

definition shallow_open_analyzer :: analyzer where
  "shallow_open_analyzer =
     \<lparr>is_in_rep = True, min_bar_shoulder_dist = 100, min_elbow_y_at_bottom = 403\<rparr>"

text \<open>
  A frame with bench top 400 and bar bottom 500, the shoulder landmarks at height 0
  and the hips at 40 pixels.
\<close>

definition zero_shoulder_frame :: frame_input where
  "zero_shoulder_frame = example_frame (Some 400) (Some 500) (Some (0.04, 0.6, 0))"

section \<open>Properties\<close>

lemmas model_defs =
  HIP_LIFT_RATIO_def SHALLOW_REP_RATIO_def SMOOTHING_WINDOW_SIZE_def
  STATUS_OK_def STATUS_FAIL_HIP_def STATUS_FAIL_SHALLOW_def STATUS_GOOD_REP_def
  STATUS_EGO_LIFT_def init_analyzer_def init_run_state_def py_truediv_def truthy_def
  float_if_truthy_def deque_append_def current_hip_y_def current_elbow_y_def
  current_shoulder_y_def smoothed_elbow_y_def hip_lift_detection_def avg_torso_length_def
  dynamic_shallow_threshold_def rep_start_cond_def rep_progress_cond_def rep_end_cond_def
  current_bar_shoulder_dist_def shallow_rep_detection_def analyze_pose_def
  store_time_series_def process_frame_def overall_status_def video_duration_def
  make_results_def analyze_video_def Let_def

lemmas example_defs =
  example_landmarks_def example_box_def example_frame_def example_video_def

subsection \<open>The smoothing buffer\<close>

lemma deque_append_nonempty: "0 < n \<Longrightarrow> deque_append n d x \<noteq> []"
  by (simp add: deque_append_def Let_def)

lemma deque_append_length: "length (deque_append n d x) = min n (Suc (length d))"
  by (simp add: deque_append_def Let_def)

lemma deque_append_window:
  "length d \<le> n \<Longrightarrow> 0 < n \<Longrightarrow>
   deque_append n d x = (if length d < n then d @ [x] else tl d @ [x])"
  by (cases d) (auto simp add: deque_append_def Let_def)

subsection \<open>What each block of the loop body changes\<close>

lemma hip_lift_detection_fields:
  assumes "hip_lift_detection bench hip_y st = Inr st'"
  shows "shallow_rep_status st' = shallow_rep_status st"
    and "time_series_data st' = time_series_data st"
    and "elbow_y_buffer st' = elbow_y_buffer st"
    and "frame_idx st' = frame_idx st"
  using assms
  by (auto simp add: hip_lift_detection_def Let_def split: if_splits option.splits)

lemma hip_lift_detection_status:
  assumes "hip_lift_detection bench hip_y st = Inr st'"
  shows "hip_lift_status st' = hip_lift_status st \<or> hip_lift_status st' = STATUS_FAIL_HIP"
  using assms
  by (auto simp add: hip_lift_detection_def Let_def split: if_splits option.splits)

lemma hip_lift_detection_baseline:
  assumes "hip_lift_detection bench hip_y st = Inr st'"
  shows "baseline_hip_bench_dist st' =
           (case baseline_hip_bench_dist st of
              None \<Rightarrow> Some \<bar>hip_y - real_of_int (box_y1 bench)\<bar>
            | Some b \<Rightarrow> Some b)"
    and "dynamic_hip_threshold st' =
           (case baseline_hip_bench_dist st of
              None \<Rightarrow> Some (\<bar>hip_y - real_of_int (box_y1 bench)\<bar> * HIP_LIFT_RATIO)
            | Some b \<Rightarrow> dynamic_hip_threshold st)"
  using assms
  by (auto simp add: hip_lift_detection_def Let_def split: if_splits option.splits)

lemma hip_lift_detection_calibration:
  assumes "hip_lift_detection bench hip_y st = Inr st'"
    and "baseline_hip_bench_dist st = None"
  shows "hip_lift_status st' = hip_lift_status st"
  using assms
  by (auto simp add: hip_lift_detection_def Let_def HIP_LIFT_RATIO_def
      split: if_splits option.splits)

lemma shallow_rep_detection_fields:
  assumes "shallow_rep_detection bar bench s h e self st = (self', st')"
  shows "hip_lift_status st' = hip_lift_status st"
    and "baseline_hip_bench_dist st' = baseline_hip_bench_dist st"
    and "dynamic_hip_threshold st' = dynamic_hip_threshold st"
    and "time_series_data st' = time_series_data st"
    and "elbow_y_buffer st' = elbow_y_buffer st"
    and "frame_idx st' = frame_idx st"
  using assms
  by (auto simp add: shallow_rep_detection_def Let_def split: if_splits option.splits)

lemma shallow_rep_detection_status:
  assumes "shallow_rep_detection bar bench s h e self st = (self', st')"
  shows "shallow_rep_status st' = shallow_rep_status st \<or>
         shallow_rep_status st' = STATUS_FAIL_SHALLOW"
  using assms
  by (auto simp add: shallow_rep_detection_def Let_def split: if_splits option.splits)

lemma store_time_series_Inr:
  assumes "store_time_series fps height st fr = Inr st'"
  shows "fps \<noteq> 0"
    and "hip_lift_status st' = hip_lift_status st"
    and "shallow_rep_status st' = shallow_rep_status st"
    and "baseline_hip_bench_dist st' = baseline_hip_bench_dist st"
    and "dynamic_hip_threshold st' = dynamic_hip_threshold st"
    and "elbow_y_buffer st' = elbow_y_buffer st"
    and "frame_idx st' = frame_idx st"
  using assms
  by (auto simp add: store_time_series_def py_truediv_def split: if_splits)

lemma process_frame_Inr:
  assumes "process_frame fps height self st fr = (self', Inr st')"
  obtains st2 where
    "analyze_pose height self (st\<lparr>frame_idx := frame_idx st + 1\<rparr>) fr = (self', Inr st2)"
    "store_time_series fps height st2 fr = Inr st'"
  using assms
  by (auto simp add: process_frame_def split: prod.splits sum.splits)

lemma analyze_pose_no_pose:
  "pose_landmarks fr = None \<Longrightarrow> analyze_pose height self st fr = (self, Inr st)"
  by (simp add: analyze_pose_def)

lemma analyze_pose_hip_status:
  assumes "analyze_pose height self st fr = (self', Inr st')"
  shows "hip_lift_status st' = hip_lift_status st \<or> hip_lift_status st' = STATUS_FAIL_HIP"
  using assms
  by (auto simp add: analyze_pose_def Let_def
      split: option.splits sum.splits prod.splits
      dest!: hip_lift_detection_status shallow_rep_detection_fields(1))

lemma analyze_pose_shallow_status:
  assumes "analyze_pose height self st fr = (self', Inr st')"
  shows "shallow_rep_status st' = shallow_rep_status st \<or>
         shallow_rep_status st' = STATUS_FAIL_SHALLOW"
  using assms
  by (auto simp add: analyze_pose_def Let_def
      split: option.splits sum.splits prod.splits
      dest!: hip_lift_detection_fields(1) shallow_rep_detection_status)

lemma process_frame_hip_status:
  assumes "process_frame fps height self st fr = (self', Inr st')"
  shows "hip_lift_status st' = hip_lift_status st \<or> hip_lift_status st' = STATUS_FAIL_HIP"
proof -
  from assms obtain st2 where
    a: "analyze_pose height self (st\<lparr>frame_idx := frame_idx st + 1\<rparr>) fr = (self', Inr st2)"
    and s: "store_time_series fps height st2 fr = Inr st'"
    by (rule process_frame_Inr)
  from analyze_pose_hip_status [OF a] store_time_series_Inr(2) [OF s]
  show ?thesis by simp
qed

lemma process_frame_shallow_status:
  assumes "process_frame fps height self st fr = (self', Inr st')"
  shows "shallow_rep_status st' = shallow_rep_status st \<or>
         shallow_rep_status st' = STATUS_FAIL_SHALLOW"
proof -
  from assms obtain st2 where
    a: "analyze_pose height self (st\<lparr>frame_idx := frame_idx st + 1\<rparr>) fr = (self', Inr st2)"
    and s: "store_time_series fps height st2 fr = Inr st'"
    by (rule process_frame_Inr)
  from analyze_pose_shallow_status [OF a] store_time_series_Inr(3) [OF s]
  show ?thesis by simp
qed

subsection \<open>The loop over a split frame list\<close>

lemma run_frames_append:
  "run_frames fps height self st (xs @ ys) =
     (case run_frames fps height self st xs of
        (self', Inl e) \<Rightarrow> (self', Inl e)
      | (self', Inr st') \<Rightarrow> run_frames fps height self' st' ys)"
  by (induction xs arbitrary: self st) (auto split: prod.splits sum.splits)

lemma run_frames_Cons_Inr:
  assumes "run_frames fps height self st (fr # frs) = (self', Inr st')"
  obtains s1 st1 where
    "process_frame fps height self st fr = (s1, Inr st1)"
    "run_frames fps height s1 st1 frs = (self', Inr st')"
  using assms by (auto split: prod.splits sum.splits)

lemma run_frames_take_split:
  assumes "k \<le> j"
    and "run_frames fps height self st (take k frs) = (self_k, Inr st_k)"
  shows "run_frames fps height self st (take j frs) =
           run_frames fps height self_k st_k (drop k (take j frs))"
proof -
  from assms(1) have "take j frs = take k frs @ drop k (take j frs)"
    by (metis append_take_drop_id min.absorb1 take_take)
  then have "run_frames fps height self st (take j frs) =
      run_frames fps height self st (take k frs @ drop k (take j frs))"
    by simp
  also have "\<dots> = run_frames fps height self_k st_k (drop k (take j frs))"
    by (simp add: run_frames_append assms(2))
  finally show ?thesis .
qed

lemma run_frames_drop_split:
  assumes "run_frames fps height self st (take k frs) = (self_k, Inr st_k)"
  shows "run_frames fps height self st frs =
           run_frames fps height self_k st_k (drop k frs)"
proof -
  have "run_frames fps height self st frs =
      run_frames fps height self st (take k frs @ drop k frs)"
    by simp
  also have "\<dots> = run_frames fps height self_k st_k (drop k frs)"
    by (simp only: run_frames_append assms) simp
  finally show ?thesis .
qed

lemma analyze_video_Inr:
  assumes "analyze_video self v = (self', Inr res)"
  obtains st where
    "run_frames (cap_fps v) (cap_height v) self init_run_state (cap_frames v) = (self', Inr st)"
    "res = make_results v st"
  using assms
  by (auto simp add: analyze_video_def split: if_splits prod.splits sum.splits)

lemma example_video_fields:
  "cap_fps (example_video fps frs) = fps"
  "cap_height (example_video fps frs) = 1000"
  "cap_frames (example_video fps frs) = frs"
  "input_exists (example_video fps frs)"
  "model_exists (example_video fps frs)"
  "cap_is_opened (example_video fps frs)"
  "writer_is_opened (example_video fps frs)"
  by (simp_all add: example_video_def)

subsection \<open>The fault flags are latches\<close>

lemma run_frames_hip_sticky:
  assumes "run_frames fps height self st frs = (self', Inr st')"
    and "hip_lift_status st = STATUS_FAIL_HIP"
  shows "hip_lift_status st' = STATUS_FAIL_HIP"
  using assms
proof (induction frs arbitrary: self st)
  case Nil
  then show ?case by simp
next
  case (Cons fr frs)
  from Cons.prems(1) obtain s1 st1 where
    p: "process_frame fps height self st fr = (s1, Inr st1)"
    and r: "run_frames fps height s1 st1 frs = (self', Inr st')"
    by (rule run_frames_Cons_Inr)
  from process_frame_hip_status [OF p] Cons.prems(2)
  have "hip_lift_status st1 = STATUS_FAIL_HIP" by auto
  with Cons.IH [OF r] show ?case .
qed

lemma run_frames_shallow_sticky:
  assumes "run_frames fps height self st frs = (self', Inr st')"
    and "shallow_rep_status st = STATUS_FAIL_SHALLOW"
  shows "shallow_rep_status st' = STATUS_FAIL_SHALLOW"
  using assms
proof (induction frs arbitrary: self st)
  case Nil
  then show ?case by simp
next
  case (Cons fr frs)
  from Cons.prems(1) obtain s1 st1 where
    p: "process_frame fps height self st fr = (s1, Inr st1)"
    and r: "run_frames fps height s1 st1 frs = (self', Inr st')"
    by (rule run_frames_Cons_Inr)
  from process_frame_shallow_status [OF p] Cons.prems(2)
  have "shallow_rep_status st1 = STATUS_FAIL_SHALLOW" by auto
  with Cons.IH [OF r] show ?case .
qed

text \<open>
  Claim C2 (sticky faults). Both status variables start at OK. Take a run that returns
  a result, the state after its first \<open>k\<close> frames and the state after its first \<open>j\<close>
  frames, \<open>k \<le> j\<close>. If \<open>hip_lift_status\<close> is FAIL: HIP LIFT after frame \<open>k\<close>, it is so
  after frame \<open>j\<close> and in the returned dictionary, whatever the frames in between
  hold; likewise \<open>shallow_rep_status\<close> and FAIL: ELBOW DEPTH.
\<close>

theorem sticky_faults:
  assumes "analyze_video self v = (self', Inr res)"
    and "run_frames (cap_fps v) (cap_height v) self init_run_state (take k (cap_frames v))
           = (self_k, Inr st_k)"
    and "k \<le> j"
    and "run_frames (cap_fps v) (cap_height v) self init_run_state (take j (cap_frames v))
           = (self_j, Inr st_j)"
  shows "hip_lift_status init_run_state = STATUS_OK \<and>
         shallow_rep_status init_run_state = STATUS_OK \<and>
         (hip_lift_status st_k = STATUS_FAIL_HIP \<longrightarrow>
            hip_lift_status st_j = STATUS_FAIL_HIP \<and>
            res_hip_lift_status res = STATUS_FAIL_HIP \<and> res_hip_lift_detected res) \<and>
         (shallow_rep_status st_k = STATUS_FAIL_SHALLOW \<longrightarrow>
            shallow_rep_status st_j = STATUS_FAIL_SHALLOW \<and>
            res_shallow_rep_status res = STATUS_FAIL_SHALLOW \<and> res_shallow_rep_detected res)"
proof -
  from assms(1) obtain st where
    run: "run_frames (cap_fps v) (cap_height v) self init_run_state (cap_frames v)
            = (self', Inr st)"
    and res: "res = make_results v st"
    by (rule analyze_video_Inr)
  have kj: "run_frames (cap_fps v) (cap_height v) self_k st_k (drop k (take j (cap_frames v)))
            = (self_j, Inr st_j)"
    using run_frames_take_split [OF assms(3) assms(2)] assms(4) by simp
  have kend: "run_frames (cap_fps v) (cap_height v) self_k st_k (drop k (cap_frames v))
            = (self', Inr st)"
    using run_frames_drop_split [OF assms(2)] run by simp
  have hip: "hip_lift_status st_j = STATUS_FAIL_HIP \<and>
      res_hip_lift_status res = STATUS_FAIL_HIP \<and> res_hip_lift_detected res"
    if "hip_lift_status st_k = STATUS_FAIL_HIP"
    using run_frames_hip_sticky [OF kj that] run_frames_hip_sticky [OF kend that]
    by (simp add: res make_results_def STATUS_FAIL_HIP_def STATUS_OK_def)
  have shallow: "shallow_rep_status st_j = STATUS_FAIL_SHALLOW \<and>
      res_shallow_rep_status res = STATUS_FAIL_SHALLOW \<and> res_shallow_rep_detected res"
    if "shallow_rep_status st_k = STATUS_FAIL_SHALLOW"
    using run_frames_shallow_sticky [OF kj that] run_frames_shallow_sticky [OF kend that]
    by (simp add: res make_results_def STATUS_FAIL_SHALLOW_def STATUS_OK_def)
  show ?thesis
    using hip shallow by (simp add: init_run_state_def)
qed

text \<open>
  The theorem at \<open>sticky_frames\<close>, \<open>k = 2\<close>, \<open>j = 3\<close>: both faults are raised on the
  second frame, the third frame is compliant, and both stay in the result.
\<close>

theorem sticky_faults_witness:
  "\<exists>self' res self_k st_k self_j st_j.
     analyze_video init_analyzer (example_video 30 sticky_frames) = (self', Inr res) \<and>
     run_frames 30 1000 init_analyzer init_run_state (take 2 sticky_frames)
       = (self_k, Inr st_k) \<and>
     run_frames 30 1000 init_analyzer init_run_state (take 3 sticky_frames)
       = (self_j, Inr st_j) \<and>
     hip_lift_status st_k = STATUS_FAIL_HIP \<and> shallow_rep_status st_k = STATUS_FAIL_SHALLOW \<and>
     hip_lift_status st_j = STATUS_FAIL_HIP \<and> shallow_rep_status st_j = STATUS_FAIL_SHALLOW \<and>
     res_hip_lift_status res = STATUS_FAIL_HIP \<and> res_hip_lift_detected res \<and>
     res_shallow_rep_status res = STATUS_FAIL_SHALLOW \<and> res_shallow_rep_detected res"
proof -
  have a: "\<exists>self' res.
      analyze_video init_analyzer (example_video 30 sticky_frames) = (self', Inr res)"
    by (simp add: model_defs example_defs sticky_frames_def)
  have k: "\<exists>self_k st_k.
      run_frames 30 1000 init_analyzer init_run_state (take 2 sticky_frames)
        = (self_k, Inr st_k) \<and>
      hip_lift_status st_k = STATUS_FAIL_HIP \<and> shallow_rep_status st_k = STATUS_FAIL_SHALLOW"
    by (simp add: model_defs example_defs sticky_frames_def)
  have j: "\<exists>self_j st_j.
      run_frames 30 1000 init_analyzer init_run_state (take 3 sticky_frames)
        = (self_j, Inr st_j)"
    by (simp add: model_defs example_defs sticky_frames_def)
  from a obtain self' res where
    a': "analyze_video init_analyzer (example_video 30 sticky_frames) = (self', Inr res)"
    by blast
  from k obtain self_k st_k where
    k': "run_frames 30 1000 init_analyzer init_run_state (take 2 sticky_frames)
           = (self_k, Inr st_k)"
    and f: "hip_lift_status st_k = STATUS_FAIL_HIP"
      "shallow_rep_status st_k = STATUS_FAIL_SHALLOW"
    by blast
  from j obtain self_j st_j where
    j': "run_frames 30 1000 init_analyzer init_run_state (take 3 sticky_frames)
           = (self_j, Inr st_j)"
    by blast
  have le: "(2::nat) \<le> 3" by simp
  from sticky_faults [of init_analyzer "example_video 30 sticky_frames" self' res 2 self_k
      st_k 3 self_j st_j, unfolded example_video_fields, OF a' k' le j'] f a' k' j'
  show ?thesis by blast
qed

subsection \<open>A video that reports zero frames per second\<close>

lemma video_duration_fps_zero: "video_duration total_frames 0 = 0"
  by (simp add: video_duration_def)

text \<open>
  Claim C1 (fps = 0). The final dictionary guards its division
  (\<open>video_duration\<close> is 0 for \<open>fps = 0\<close>), but the time-series record of every frame
  divides \<open>frame_idx\<close> by \<open>fps\<close> unguarded: with \<open>fps = 0\<close> a video of one frame
  (no detection, no pose) raises ZeroDivisionError on that frame, and no dictionary
  is returned.
\<close>

theorem fps_zero_raises:
  "analyze_video init_analyzer (example_video 0 [example_frame None None None])
     = (init_analyzer, Inl ZeroDivisionError) \<and>
   video_duration (cap_total_frames (example_video 0 [example_frame None None None])) 0 = 0"
  by (simp add: model_defs example_defs)

subsection \<open>The pose block, stage by stage\<close>

lemma analyze_pose_Some:
  assumes "analyze_pose height self st fr = (self', Inr st')"
    and "pose_landmarks fr = Some lm"
  obtains st2 where
    "(case bench_box fr of
        None \<Rightarrow> Inr (st\<lparr>elbow_y_buffer :=
                  deque_append SMOOTHING_WINDOW_SIZE (elbow_y_buffer st)
                    (current_elbow_y height lm)\<rparr>)
      | Some bench \<Rightarrow> hip_lift_detection bench (current_hip_y height lm)
          (st\<lparr>elbow_y_buffer :=
                deque_append SMOOTHING_WINDOW_SIZE (elbow_y_buffer st)
                  (current_elbow_y height lm)\<rparr>)) = Inr st2"
    "(case bar_box fr of
        None \<Rightarrow> (self, st2)
      | Some bar \<Rightarrow> shallow_rep_detection bar (bench_box fr) (current_shoulder_y height lm)
          (current_hip_y height lm)
          (smoothed_elbow_y (deque_append SMOOTHING_WINDOW_SIZE (elbow_y_buffer st)
             (current_elbow_y height lm))) self st2) = (self', st')"
  using assms
  by (auto simp add: analyze_pose_def Let_def split: option.splits sum.splits prod.splits)

lemma hip_stage_fields:
  assumes "(case bench of None \<Rightarrow> Inr st1 | Some b \<Rightarrow> hip_lift_detection b hip_y st1) = Inr st2"
  shows "shallow_rep_status st2 = shallow_rep_status st1"
    and "time_series_data st2 = time_series_data st1"
    and "elbow_y_buffer st2 = elbow_y_buffer st1"
    and "frame_idx st2 = frame_idx st1"
  using assms by (cases bench; simp add: hip_lift_detection_fields)+

lemma rep_stage_fields:
  assumes "(case bar of
              None \<Rightarrow> (self, st2)
            | Some b \<Rightarrow> shallow_rep_detection b bench s h e self st2) = (self', st')"
  shows "hip_lift_status st' = hip_lift_status st2"
    and "baseline_hip_bench_dist st' = baseline_hip_bench_dist st2"
    and "dynamic_hip_threshold st' = dynamic_hip_threshold st2"
    and "time_series_data st' = time_series_data st2"
    and "elbow_y_buffer st' = elbow_y_buffer st2"
    and "frame_idx st' = frame_idx st2"
  using assms by (cases bar; simp add: shallow_rep_detection_fields)+

lemma analyze_pose_bar:
  assumes "analyze_pose height self st fr = (self', Inr st')"
    and "pose_landmarks fr = Some lm" and "bar_box fr = Some bar"
  obtains st2 where
    "shallow_rep_detection bar (bench_box fr) (current_shoulder_y height lm)
       (current_hip_y height lm)
       (smoothed_elbow_y (deque_append SMOOTHING_WINDOW_SIZE (elbow_y_buffer st)
          (current_elbow_y height lm))) self st2 = (self', st')"
    "shallow_rep_status st2 = shallow_rep_status st"
    "elbow_y_buffer st2 =
       deque_append SMOOTHING_WINDOW_SIZE (elbow_y_buffer st) (current_elbow_y height lm)"
proof -
  from assms(1,2) obtain st2 where
    h: "(case bench_box fr of
        None \<Rightarrow> Inr (st\<lparr>elbow_y_buffer :=
                  deque_append SMOOTHING_WINDOW_SIZE (elbow_y_buffer st)
                    (current_elbow_y height lm)\<rparr>)
      | Some bench \<Rightarrow> hip_lift_detection bench (current_hip_y height lm)
          (st\<lparr>elbow_y_buffer :=
                deque_append SMOOTHING_WINDOW_SIZE (elbow_y_buffer st)
                  (current_elbow_y height lm)\<rparr>)) = Inr st2"
    and r: "(case bar_box fr of
        None \<Rightarrow> (self, st2)
      | Some bar \<Rightarrow> shallow_rep_detection bar (bench_box fr) (current_shoulder_y height lm)
          (current_hip_y height lm)
          (smoothed_elbow_y (deque_append SMOOTHING_WINDOW_SIZE (elbow_y_buffer st)
             (current_elbow_y height lm))) self st2) = (self', st')"
    by (rule analyze_pose_Some)
  from r assms(3) hip_stage_fields(1,3) [OF h] that show thesis by simp
qed

lemma analyze_pose_time_series:
  assumes "analyze_pose height self st fr = (self', Inr st')"
  shows "time_series_data st' = time_series_data st" and "frame_idx st' = frame_idx st"
proof -
  have "time_series_data st' = time_series_data st \<and> frame_idx st' = frame_idx st"
  proof (cases "pose_landmarks fr")
    case None
    with assms show ?thesis by (simp add: analyze_pose_no_pose)
  next
    case (Some lm)
    from assms Some obtain st2 where
      h: "(case bench_box fr of
          None \<Rightarrow> Inr (st\<lparr>elbow_y_buffer :=
                    deque_append SMOOTHING_WINDOW_SIZE (elbow_y_buffer st)
                      (current_elbow_y height lm)\<rparr>)
        | Some bench \<Rightarrow> hip_lift_detection bench (current_hip_y height lm)
            (st\<lparr>elbow_y_buffer :=
                  deque_append SMOOTHING_WINDOW_SIZE (elbow_y_buffer st)
                    (current_elbow_y height lm)\<rparr>)) = Inr st2"
      and r: "(case bar_box fr of
          None \<Rightarrow> (self, st2)
        | Some bar \<Rightarrow> shallow_rep_detection bar (bench_box fr) (current_shoulder_y height lm)
            (current_hip_y height lm)
            (smoothed_elbow_y (deque_append SMOOTHING_WINDOW_SIZE (elbow_y_buffer st)
               (current_elbow_y height lm))) self st2) = (self', st')"
      by (rule analyze_pose_Some)
    from hip_stage_fields(2,4) [OF h] rep_stage_fields(4,6) [OF r]
    show ?thesis by simp
  qed
  then show "time_series_data st' = time_series_data st" and "frame_idx st' = frame_idx st"
    by simp_all
qed

lemma analyze_pose_buffer:
  assumes "analyze_pose height self st fr = (self', Inr st')"
  shows "elbow_y_buffer st' =
           (case pose_landmarks fr of
              None \<Rightarrow> elbow_y_buffer st
            | Some lm \<Rightarrow> deque_append SMOOTHING_WINDOW_SIZE (elbow_y_buffer st)
                           (current_elbow_y height lm))"
proof (cases "pose_landmarks fr")
  case None
  with assms show ?thesis by (simp add: analyze_pose_no_pose)
next
  case (Some lm)
  from assms Some obtain st2 where
    h: "(case bench_box fr of
        None \<Rightarrow> Inr (st\<lparr>elbow_y_buffer :=
                  deque_append SMOOTHING_WINDOW_SIZE (elbow_y_buffer st)
                    (current_elbow_y height lm)\<rparr>)
      | Some bench \<Rightarrow> hip_lift_detection bench (current_hip_y height lm)
          (st\<lparr>elbow_y_buffer :=
                deque_append SMOOTHING_WINDOW_SIZE (elbow_y_buffer st)
                  (current_elbow_y height lm)\<rparr>)) = Inr st2"
    and r: "(case bar_box fr of
        None \<Rightarrow> (self, st2)
      | Some bar \<Rightarrow> shallow_rep_detection bar (bench_box fr) (current_shoulder_y height lm)
          (current_hip_y height lm)
          (smoothed_elbow_y (deque_append SMOOTHING_WINDOW_SIZE (elbow_y_buffer st)
             (current_elbow_y height lm))) self st2) = (self', st')"
    by (rule analyze_pose_Some)
  from hip_stage_fields(3) [OF h] rep_stage_fields(5) [OF r] Some
  show ?thesis by simp
qed

subsection \<open>The rep state machine\<close>

lemma rep_conds_exclusive:
  "\<not> (rep_start_cond self d \<and> rep_progress_cond self d)"
  "\<not> (rep_start_cond self d \<and> rep_end_cond self d)"
  "\<not> (rep_progress_cond self d \<and> rep_end_cond self d)"
  by (auto simp add: rep_start_cond_def rep_progress_cond_def rep_end_cond_def)

lemma shallow_rep_detection_start:
  assumes "shallow_rep_detection bar bench s h e self st = (self', st')"
    and "rep_start_cond self (current_bar_shoulder_dist bar s)"
  shows "self' = self\<lparr>is_in_rep := True,
            min_bar_shoulder_dist := current_bar_shoulder_dist bar s,
            min_elbow_y_at_bottom := e\<rparr>" and "st' = st"
  using assms by (auto simp add: shallow_rep_detection_def Let_def)

lemma shallow_rep_detection_progress:
  assumes "shallow_rep_detection bar bench s h e self st = (self', st')"
    and "rep_progress_cond self (current_bar_shoulder_dist bar s)"
  shows "self' = self\<lparr>min_bar_shoulder_dist := current_bar_shoulder_dist bar s,
            min_elbow_y_at_bottom := e\<rparr>" and "st' = st"
  using assms rep_conds_exclusive(1) [of self "current_bar_shoulder_dist bar s"]
  by (auto simp add: shallow_rep_detection_def Let_def)

lemma shallow_rep_detection_end:
  assumes "shallow_rep_detection bar bench s h e self st = (self', st')"
    and "rep_end_cond self (current_bar_shoulder_dist bar s)"
  shows "self' = self\<lparr>is_in_rep := False, min_bar_shoulder_dist := 1000,
            min_elbow_y_at_bottom := 2000\<rparr>"
    and "st' = (case bench of
              None \<Rightarrow> st
            | Some b \<Rightarrow>
                if min_elbow_y_at_bottom self > real_of_int (box_y1 b) +
                     dynamic_shallow_threshold s h
                then st\<lparr>shallow_rep_status := STATUS_FAIL_SHALLOW\<rparr>
                else st)"
  using assms rep_conds_exclusive(2,3) [of self "current_bar_shoulder_dist bar s"]
  by (auto simp add: shallow_rep_detection_def Let_def)

lemma shallow_rep_detection_none:
  assumes "shallow_rep_detection bar bench s h e self st = (self', st')"
    and "\<not> rep_start_cond self (current_bar_shoulder_dist bar s)"
    and "\<not> rep_progress_cond self (current_bar_shoulder_dist bar s)"
    and "\<not> rep_end_cond self (current_bar_shoulder_dist bar s)"
  shows "self' = self" and "st' = st"
  using assms by (auto simp add: shallow_rep_detection_def Let_def)

text \<open>
  Claim C3 (one rule per frame). On a frame with a pose and a bar box, where the state
  machine runs on the distance \<open>d\<close> between bar bottom and shoulder line: no two of
  the three conditions (start, track minimum, end and judge) hold together, and
  the frame has exactly the effect of the one that holds, or none. A frame on which
  the start condition holds leaves the rep open with \<open>d\<close> as its minimum and judges
  nothing; a frame on which the end condition holds leaves the tracker at its initial
  values with no rep open. A rep is opened by a frame only if
  \<open>d < min_bar_shoulder_dist - 30\<close>, and closed only if
  \<open>d > min_bar_shoulder_dist + 30\<close>, both read before the frame.
\<close>

theorem rep_rules_exclusive:
  assumes "process_frame fps height self st fr = (self', Inr st')"
    and "pose_landmarks fr = Some lm" and "bar_box fr = Some bar"
    and "d = current_bar_shoulder_dist bar (current_shoulder_y height lm)"
  shows "\<not> (rep_start_cond self d \<and> rep_progress_cond self d) \<and>
         \<not> (rep_start_cond self d \<and> rep_end_cond self d) \<and>
         \<not> (rep_progress_cond self d \<and> rep_end_cond self d) \<and>
         (rep_start_cond self d \<longrightarrow>
            is_in_rep self' \<and> min_bar_shoulder_dist self' = d \<and>
            shallow_rep_status st' = shallow_rep_status st) \<and>
         (rep_progress_cond self d \<longrightarrow>
            is_in_rep self' \<and> min_bar_shoulder_dist self' = d \<and>
            shallow_rep_status st' = shallow_rep_status st) \<and>
         (rep_end_cond self d \<longrightarrow>
            \<not> is_in_rep self' \<and> min_bar_shoulder_dist self' = 1000 \<and>
            min_elbow_y_at_bottom self' = 2000) \<and>
         (\<not> rep_start_cond self d \<and> \<not> rep_progress_cond self d \<and> \<not> rep_end_cond self d \<longrightarrow>
            self' = self \<and> shallow_rep_status st' = shallow_rep_status st) \<and>
         (\<not> is_in_rep self \<and> is_in_rep self' \<longrightarrow> d < min_bar_shoulder_dist self - 30) \<and>
         (is_in_rep self \<and> \<not> is_in_rep self' \<longrightarrow> d > min_bar_shoulder_dist self + 30)"
proof -
  from assms(1) obtain st1 where
    a: "analyze_pose height self (st\<lparr>frame_idx := frame_idx st + 1\<rparr>) fr = (self', Inr st1)"
    and s: "store_time_series fps height st1 fr = Inr st'"
    by (rule process_frame_Inr)
  from a assms(2,3) obtain st2 where
    m: "shallow_rep_detection bar (bench_box fr) (current_shoulder_y height lm)
       (current_hip_y height lm)
       (smoothed_elbow_y (deque_append SMOOTHING_WINDOW_SIZE
          (elbow_y_buffer (st\<lparr>frame_idx := frame_idx st + 1\<rparr>))
          (current_elbow_y height lm))) self st2 = (self', st1)"
    and st2: "shallow_rep_status st2 = shallow_rep_status (st\<lparr>frame_idx := frame_idx st + 1\<rparr>)"
    by (rule analyze_pose_bar)
  have keep: "shallow_rep_status st' = shallow_rep_status st" if "st1 = st2"
    using that st2 store_time_series_Inr(3) [OF s] by simp
  have start: "is_in_rep self' \<and> min_bar_shoulder_dist self' = d \<and>
      shallow_rep_status st' = shallow_rep_status st" if "rep_start_cond self d"
    using shallow_rep_detection_start [OF m that [unfolded assms(4)]] keep
    by (simp add: assms(4))
  have progress: "is_in_rep self' \<and> min_bar_shoulder_dist self' = d \<and>
      shallow_rep_status st' = shallow_rep_status st" if "rep_progress_cond self d"
    using shallow_rep_detection_progress [OF m that [unfolded assms(4)]] keep that
    by (simp add: assms(4) rep_progress_cond_def)
  have ending: "\<not> is_in_rep self' \<and> min_bar_shoulder_dist self' = 1000 \<and>
      min_elbow_y_at_bottom self' = 2000" if "rep_end_cond self d"
    using shallow_rep_detection_end(1) [OF m that [unfolded assms(4)]] by simp
  have none: "self' = self \<and> shallow_rep_status st' = shallow_rep_status st"
    if "\<not> rep_start_cond self d \<and> \<not> rep_progress_cond self d \<and> \<not> rep_end_cond self d"
    using shallow_rep_detection_none [OF m] that keep by (simp add: assms(4))
  have opened: "d < min_bar_shoulder_dist self - 30" if "\<not> is_in_rep self \<and> is_in_rep self'"
  proof -
    have "rep_start_cond self d"
      using that progress ending none
      by (cases "rep_start_cond self d") (auto simp add: rep_progress_cond_def rep_end_cond_def)
    then show ?thesis by (simp add: rep_start_cond_def)
  qed
  have closed: "d > min_bar_shoulder_dist self + 30" if "is_in_rep self \<and> \<not> is_in_rep self'"
  proof -
    have "rep_end_cond self d"
      using that start progress none
      by (cases "rep_end_cond self d") auto
    then show ?thesis by (simp add: rep_end_cond_def)
  qed
  show ?thesis
    using rep_conds_exclusive [of self d] start progress ending none opened closed
    by blast
qed

text \<open>
  The theorem on the first two frames of \<open>sticky_frames\<close>: the first starts a rep from
  the fresh tracker (\<open>d = 100\<close>), the second ends it (\<open>d = 200\<close>).
\<close>

theorem rep_rules_exclusive_witness:
  "\<exists>self1 st1 self2 st2.
     process_frame 30 1000 init_analyzer init_run_state
       (example_frame (Some 400) (Some 400) (Some (0.5, 0.6, 0.3))) = (self1, Inr st1) \<and>
     rep_start_cond init_analyzer
       (current_bar_shoulder_dist (example_box 380 400)
          (current_shoulder_y 1000 (example_landmarks 0.5 0.6 0.3))) \<and>
     is_in_rep self1 \<and> min_bar_shoulder_dist self1 = 100 \<and>
     process_frame 30 1000 self1 st1
       (example_frame (Some 400) (Some 500) (Some (0.2, 0.6, 0.3))) = (self2, Inr st2) \<and>
     rep_end_cond self1
       (current_bar_shoulder_dist (example_box 480 500)
          (current_shoulder_y 1000 (example_landmarks 0.2 0.6 0.3))) \<and>
     \<not> is_in_rep self2 \<and> min_bar_shoulder_dist self2 = 1000 \<and>
     min_elbow_y_at_bottom self2 = 2000"
proof -
  let ?f1 = "example_frame (Some 400) (Some 400) (Some (0.5, 0.6, 0.3))"
  let ?f2 = "example_frame (Some 400) (Some 500) (Some (0.2, 0.6, 0.3))"
  let ?d1 = "current_bar_shoulder_dist (example_box 380 400)
      (current_shoulder_y 1000 (example_landmarks 0.5 0.6 0.3))"
  let ?d2 = "current_bar_shoulder_dist (example_box 480 500)
      (current_shoulder_y 1000 (example_landmarks 0.2 0.6 0.3))"
  have "\<exists>self1 st1. process_frame 30 1000 init_analyzer init_run_state ?f1 = (self1, Inr st1) \<and>
      is_in_rep self1 \<and> min_bar_shoulder_dist self1 = 100 \<and>
      (\<exists>self2 st2. process_frame 30 1000 self1 st1 ?f2 = (self2, Inr st2))"
    by (simp add: model_defs example_defs)
  then obtain self1 st1 self2 st2 where
    p1: "process_frame 30 1000 init_analyzer init_run_state ?f1 = (self1, Inr st1)"
    and s1: "is_in_rep self1" "min_bar_shoulder_dist self1 = 100"
    and p2: "process_frame 30 1000 self1 st1 ?f2 = (self2, Inr st2)"
    by blast
  have c1: "rep_start_cond init_analyzer ?d1"
    by (simp add: model_defs example_defs)
  have c2: "rep_end_cond self1 ?d2"
    using s1 by (simp add: model_defs example_defs)
  have l1: "pose_landmarks ?f1 = Some (example_landmarks 0.5 0.6 0.3)"
    and b1: "bar_box ?f1 = Some (example_box 380 400)"
    and l2: "pose_landmarks ?f2 = Some (example_landmarks 0.2 0.6 0.3)"
    and b2: "bar_box ?f2 = Some (example_box 480 500)"
    by (simp_all add: example_defs)
  from rep_rules_exclusive [OF p1 l1 b1 refl] rep_rules_exclusive [OF p2 l2 b2 refl]
    c1 c2 s1 p1 p2
  show ?thesis by blast
qed

subsection \<open>The judgment at the end of a rep\<close>

text \<open>
  What the code does on a frame with a pose and a bar box, with a rep open and the
  bar-shoulder distance more than 30 above the tracked minimum: the tracker is
  left at \<open>is_in_rep = False\<close>, \<open>min_bar_shoulder_dist = 1000\<close>,
  \<open>min_elbow_y_at_bottom = 2000\<close> whatever the judgment; with a bench box present,
  \<open>shallow_rep_status\<close> becomes FAIL: ELBOW DEPTH if the tracked elbow height
  exceeds bench top plus the threshold as the source computes it
  (\<open>dynamic_shallow_threshold\<close>), and keeps its value otherwise; with no bench box
  it keeps its value.
\<close>

lemma rep_end_effect:
  assumes "process_frame fps height self st fr = (self', Inr st')"
    and "pose_landmarks fr = Some lm" and "bar_box fr = Some bar"
    and "is_in_rep self"
    and "current_bar_shoulder_dist bar (current_shoulder_y height lm)
           > min_bar_shoulder_dist self + 30"
  shows "\<not> is_in_rep self' \<and> min_bar_shoulder_dist self' = 1000 \<and>
         min_elbow_y_at_bottom self' = 2000 \<and>
         (case bench_box fr of
            None \<Rightarrow> shallow_rep_status st' = shallow_rep_status st
          | Some bench \<Rightarrow>
              if min_elbow_y_at_bottom self > real_of_int (box_y1 bench) +
                   dynamic_shallow_threshold (current_shoulder_y height lm)
                     (current_hip_y height lm)
              then shallow_rep_status st' = STATUS_FAIL_SHALLOW
              else shallow_rep_status st' = shallow_rep_status st)"
proof -
  from assms(1) obtain st1 where
    a: "analyze_pose height self (st\<lparr>frame_idx := frame_idx st + 1\<rparr>) fr = (self', Inr st1)"
    and s: "store_time_series fps height st1 fr = Inr st'"
    by (rule process_frame_Inr)
  from a assms(2,3) obtain st2 where
    m: "shallow_rep_detection bar (bench_box fr) (current_shoulder_y height lm)
       (current_hip_y height lm)
       (smoothed_elbow_y (deque_append SMOOTHING_WINDOW_SIZE
          (elbow_y_buffer (st\<lparr>frame_idx := frame_idx st + 1\<rparr>))
          (current_elbow_y height lm))) self st2 = (self', st1)"
    and st2: "shallow_rep_status st2 = shallow_rep_status (st\<lparr>frame_idx := frame_idx st + 1\<rparr>)"
    by (rule analyze_pose_bar)
  have e: "rep_end_cond self (current_bar_shoulder_dist bar (current_shoulder_y height lm))"
    using assms(4,5) by (simp add: rep_end_cond_def)
  note r = shallow_rep_detection_end [OF m e]
  have tracker: "\<not> is_in_rep self' \<and> min_bar_shoulder_dist self' = 1000 \<and>
      min_elbow_y_at_bottom self' = 2000"
    using r(1) by simp
  have verdict: "(case bench_box fr of
            None \<Rightarrow> shallow_rep_status st' = shallow_rep_status st
          | Some bench \<Rightarrow>
              if min_elbow_y_at_bottom self > real_of_int (box_y1 bench) +
                   dynamic_shallow_threshold (current_shoulder_y height lm)
                     (current_hip_y height lm)
              then shallow_rep_status st' = STATUS_FAIL_SHALLOW
              else shallow_rep_status st' = shallow_rep_status st)"
    using r(2) st2 store_time_series_Inr(3) [OF s]
    by (cases "bench_box fr") (simp_all split: if_splits)
  from tracker verdict show ?thesis by simp
qed

text \<open>
  With a bench box present and neither shoulder nor hip height equal to zero, the
  threshold is 0.05 times the distance between shoulder and hip height.
\<close>

lemma rep_end_effect_nonzero:
  assumes "process_frame fps height self st fr = (self', Inr st')"
    and "pose_landmarks fr = Some lm" and "bar_box fr = Some bar"
    and "bench_box fr = Some bench"
    and "is_in_rep self"
    and "current_bar_shoulder_dist bar (current_shoulder_y height lm)
           > min_bar_shoulder_dist self + 30"
    and "current_shoulder_y height lm \<noteq> 0" and "current_hip_y height lm \<noteq> 0"
  shows "shallow_rep_status st' =
           (if min_elbow_y_at_bottom self > real_of_int (box_y1 bench) +
                 \<bar>current_shoulder_y height lm - current_hip_y height lm\<bar> * 0.05
            then STATUS_FAIL_SHALLOW else shallow_rep_status st)"
  using rep_end_effect [OF assms(1,2,3,5,6)] assms(4,7,8)
  by (simp add: dynamic_shallow_threshold_def avg_torso_length_def truthy_def
      SHALLOW_REP_RATIO_def)

text \<open>
  Claim C5 (end and judge). The reset of the tracker and the silent pass without a
  bench box hold as above, but the judgment does not use
  \<open>\<bar>shoulder_y - hip_y\<bar> * 0.05\<close> on every frame that has both coordinates. On
  \<open>zero_shoulder_frame\<close>, with a rep open at minimum 100 and tracked elbow height
  403: the distance is 500, so the rep ends; a bench box is present with top 400;
  shoulder and hip height are both present (0 and 40), so the threshold of the claim
  is 2, and \<open>403 > 400 + 2\<close>. The source takes the shoulder height 0 as absent,
  computes the threshold 5 from the fallback torso length 100, and leaves
  \<open>shallow_rep_status\<close> at OK, while it does reset the tracker.
\<close>

theorem rep_end_zero_shoulder:
  "pose_landmarks zero_shoulder_frame = Some (example_landmarks 0.04 0.6 0) \<and>
   bench_box zero_shoulder_frame = Some (example_box 400 450) \<and>
   bar_box zero_shoulder_frame = Some (example_box 480 500) \<and>
   current_shoulder_y 1000 (example_landmarks 0.04 0.6 0) = 0 \<and>
   current_hip_y 1000 (example_landmarks 0.04 0.6 0) = 40 \<and>
   is_in_rep shallow_open_analyzer \<and>
   current_bar_shoulder_dist (example_box 480 500)
     (current_shoulder_y 1000 (example_landmarks 0.04 0.6 0))
     > min_bar_shoulder_dist shallow_open_analyzer + 30 \<and>
   min_elbow_y_at_bottom shallow_open_analyzer >
     real_of_int (box_y1 (example_box 400 450)) +
       \<bar>current_shoulder_y 1000 (example_landmarks 0.04 0.6 0) -
        current_hip_y 1000 (example_landmarks 0.04 0.6 0)\<bar> * 0.05 \<and>
   dynamic_shallow_threshold (current_shoulder_y 1000 (example_landmarks 0.04 0.6 0))
     (current_hip_y 1000 (example_landmarks 0.04 0.6 0)) = 5 \<and>
   (\<exists>self' st'.
      process_frame 30 1000 shallow_open_analyzer init_run_state zero_shoulder_frame
        = (self', Inr st') \<and>
      shallow_rep_status st' = STATUS_OK \<and>
      self' = init_analyzer)"
  by (simp add: model_defs example_defs zero_shoulder_frame_def shallow_open_analyzer_def)

subsection \<open>Torso length and the truth value of a coordinate\<close>

text \<open>
  Claim C6 (torso length). The threshold is only computed inside the pose block, where
  shoulder and hip height are both present. With the shoulder landmarks at height 0
  and the hips at 500 pixels, both present, the torso length computed is the fallback
  100 and not \<open>\<bar>0 - 500\<bar> = 500\<close>, and the threshold is 5: the source tests the truth
  value of the two numbers, and \<open>0.0\<close> is false.
\<close>

theorem torso_length_zero_coordinate:
  "current_shoulder_y 1000 (example_landmarks 0.5 0.6 0) = 0 \<and>
   current_hip_y 1000 (example_landmarks 0.5 0.6 0) = 500 \<and>
   avg_torso_length (current_shoulder_y 1000 (example_landmarks 0.5 0.6 0))
     (current_hip_y 1000 (example_landmarks 0.5 0.6 0)) = 100 \<and>
   \<bar>current_shoulder_y 1000 (example_landmarks 0.5 0.6 0) -
     current_hip_y 1000 (example_landmarks 0.5 0.6 0)\<bar> = 500 \<and>
   dynamic_shallow_threshold (current_shoulder_y 1000 (example_landmarks 0.5 0.6 0))
     (current_hip_y 1000 (example_landmarks 0.5 0.6 0)) = 5"
  by (simp add: model_defs example_defs)

text \<open>Where neither coordinate is zero, the torso length is the distance.\<close>

lemma avg_torso_length_nonzero:
  "shoulder_y \<noteq> 0 \<Longrightarrow> hip_y \<noteq> 0 \<Longrightarrow> avg_torso_length shoulder_y hip_y = \<bar>shoulder_y - hip_y\<bar>"
  by (simp add: avg_torso_length_def truthy_def)

subsection \<open>The recorded coordinates\<close>

text \<open>
  Claim C10 (null coordinates). Every frame that is processed appends one record, and
  its \<open>hip_y\<close> is null when there is no pose and also when the hip height computed
  from a pose is exactly 0, and the height otherwise; likewise \<open>elbow_y\<close> and
  \<open>shoulder_y\<close>. So a null in the record does not tell that the landmark was absent.
\<close>

theorem time_series_null_coordinates:
  assumes "process_frame fps height self st fr = (self', Inr st')"
  shows "\<exists>e. time_series_data st' = time_series_data st @ [e] \<and>
           ts_hip_y e =
             (case pose_landmarks fr of
                None \<Rightarrow> None
              | Some lm \<Rightarrow> if current_hip_y height lm = 0 then None
                           else Some (current_hip_y height lm)) \<and>
           ts_elbow_y e =
             (case pose_landmarks fr of
                None \<Rightarrow> None
              | Some lm \<Rightarrow> if current_elbow_y height lm = 0 then None
                           else Some (current_elbow_y height lm)) \<and>
           ts_shoulder_y e =
             (case pose_landmarks fr of
                None \<Rightarrow> None
              | Some lm \<Rightarrow> if current_shoulder_y height lm = 0 then None
                           else Some (current_shoulder_y height lm))"
proof -
  from assms obtain st1 where
    a: "analyze_pose height self (st\<lparr>frame_idx := frame_idx st + 1\<rparr>) fr = (self', Inr st1)"
    and s: "store_time_series fps height st1 fr = Inr st'"
    by (rule process_frame_Inr)
  have ts: "time_series_data st1 = time_series_data st"
    using analyze_pose_time_series(1) [OF a] by simp
  from s ts show ?thesis
    by (cases "pose_landmarks fr")
      (auto simp add: store_time_series_def py_truediv_def float_if_truthy_def truthy_def
        split: if_splits)
qed

text \<open>
  The theorem at a frame with a pose whose hip landmarks are at height 0: the pose is
  present, and the record holds a null \<open>hip_y\<close> beside the elbow and shoulder heights.
\<close>

theorem time_series_null_coordinates_witness:
  "\<exists>self' st' e.
     process_frame 30 1000 init_analyzer init_run_state
       (example_frame None None (Some (0, 0.6, 0.3))) = (self', Inr st') \<and>
     pose_landmarks (example_frame None None (Some (0, 0.6, 0.3)))
       = Some (example_landmarks 0 0.6 0.3) \<and>
     time_series_data st' = [e] \<and>
     ts_hip_y e = None \<and> ts_elbow_y e = Some 600 \<and> ts_shoulder_y e = Some 300"
proof -
  let ?fr = "example_frame None None (Some (0, 0.6, 0.3))"
  have "\<exists>self' st'. process_frame 30 1000 init_analyzer init_run_state ?fr = (self', Inr st')"
    by (simp add: model_defs example_defs)
  then obtain self' st' where
    p: "process_frame 30 1000 init_analyzer init_run_state ?fr = (self', Inr st')"
    by blast
  have l: "pose_landmarks ?fr = Some (example_landmarks 0 0.6 0.3)"
    by (simp add: example_defs)
  have v: "current_hip_y 1000 (example_landmarks 0 0.6 0.3) = 0"
    "current_elbow_y 1000 (example_landmarks 0 0.6 0.3) = 600"
    "current_shoulder_y 1000 (example_landmarks 0 0.6 0.3) = 300"
    by (simp_all add: model_defs example_defs)
  from time_series_null_coordinates [OF p] p l v
  show ?thesis by (simp add: init_run_state_def)
qed

subsection \<open>The baseline of the hip-lift check\<close>

lemma analyze_pose_hip_skipped:
  assumes "analyze_pose height self st fr = (self', Inr st')"
    and "pose_landmarks fr = None \<or> bench_box fr = None"
  shows "baseline_hip_bench_dist st' = baseline_hip_bench_dist st \<and>
         dynamic_hip_threshold st' = dynamic_hip_threshold st \<and>
         hip_lift_status st' = hip_lift_status st"
proof (cases "pose_landmarks fr")
  case None
  with assms(1) show ?thesis by (simp add: analyze_pose_no_pose)
next
  case (Some lm)
  with assms(2) have nb: "bench_box fr = None" by simp
  from assms(1) Some obtain st2 where
    h: "(case bench_box fr of
        None \<Rightarrow> Inr (st\<lparr>elbow_y_buffer :=
                  deque_append SMOOTHING_WINDOW_SIZE (elbow_y_buffer st)
                    (current_elbow_y height lm)\<rparr>)
      | Some bench \<Rightarrow> hip_lift_detection bench (current_hip_y height lm)
          (st\<lparr>elbow_y_buffer :=
                deque_append SMOOTHING_WINDOW_SIZE (elbow_y_buffer st)
                  (current_elbow_y height lm)\<rparr>)) = Inr st2"
    and r: "(case bar_box fr of
        None \<Rightarrow> (self, st2)
      | Some bar \<Rightarrow> shallow_rep_detection bar (bench_box fr) (current_shoulder_y height lm)
          (current_hip_y height lm)
          (smoothed_elbow_y (deque_append SMOOTHING_WINDOW_SIZE (elbow_y_buffer st)
             (current_elbow_y height lm))) self st2) = (self', st')"
    by (rule analyze_pose_Some)
  from h nb have "st2 = st\<lparr>elbow_y_buffer :=
      deque_append SMOOTHING_WINDOW_SIZE (elbow_y_buffer st) (current_elbow_y height lm)\<rparr>"
    by simp
  with rep_stage_fields(1,2,3) [OF r] show ?thesis by simp
qed

lemma analyze_pose_hip_checked:
  assumes "analyze_pose height self st fr = (self', Inr st')"
    and "pose_landmarks fr = Some lm" and "bench_box fr = Some bench"
  shows "baseline_hip_bench_dist st' =
           (case baseline_hip_bench_dist st of
              None \<Rightarrow> Some \<bar>current_hip_y height lm - real_of_int (box_y1 bench)\<bar>
            | Some b \<Rightarrow> Some b)"
    and "dynamic_hip_threshold st' =
           (case baseline_hip_bench_dist st of
              None \<Rightarrow> Some (\<bar>current_hip_y height lm - real_of_int (box_y1 bench)\<bar>
                             * HIP_LIFT_RATIO)
            | Some b \<Rightarrow> dynamic_hip_threshold st)"
    and "baseline_hip_bench_dist st = None \<Longrightarrow> hip_lift_status st' = hip_lift_status st"
proof -
  from assms(1,2) obtain st2 where
    h: "(case bench_box fr of
        None \<Rightarrow> Inr (st\<lparr>elbow_y_buffer :=
                  deque_append SMOOTHING_WINDOW_SIZE (elbow_y_buffer st)
                    (current_elbow_y height lm)\<rparr>)
      | Some bench \<Rightarrow> hip_lift_detection bench (current_hip_y height lm)
          (st\<lparr>elbow_y_buffer :=
                deque_append SMOOTHING_WINDOW_SIZE (elbow_y_buffer st)
                  (current_elbow_y height lm)\<rparr>)) = Inr st2"
    and r: "(case bar_box fr of
        None \<Rightarrow> (self, st2)
      | Some bar \<Rightarrow> shallow_rep_detection bar (bench_box fr) (current_shoulder_y height lm)
          (current_hip_y height lm)
          (smoothed_elbow_y (deque_append SMOOTHING_WINDOW_SIZE (elbow_y_buffer st)
             (current_elbow_y height lm))) self st2) = (self', st')"
    by (rule analyze_pose_Some)
  from h assms(3) have d: "hip_lift_detection bench (current_hip_y height lm)
      (st\<lparr>elbow_y_buffer :=
            deque_append SMOOTHING_WINDOW_SIZE (elbow_y_buffer st)
              (current_elbow_y height lm)\<rparr>) = Inr st2"
    by simp
  from hip_lift_detection_baseline(1) [OF d] rep_stage_fields(2) [OF r]
  show "baseline_hip_bench_dist st' =
           (case baseline_hip_bench_dist st of
              None \<Rightarrow> Some \<bar>current_hip_y height lm - real_of_int (box_y1 bench)\<bar>
            | Some b \<Rightarrow> Some b)"
    by (cases "baseline_hip_bench_dist st") simp_all
  from hip_lift_detection_baseline(2) [OF d] rep_stage_fields(3) [OF r]
  show "dynamic_hip_threshold st' =
           (case baseline_hip_bench_dist st of
              None \<Rightarrow> Some (\<bar>current_hip_y height lm - real_of_int (box_y1 bench)\<bar>
                             * HIP_LIFT_RATIO)
            | Some b \<Rightarrow> dynamic_hip_threshold st)"
    by (cases "baseline_hip_bench_dist st") simp_all
  show "hip_lift_status st' = hip_lift_status st" if "baseline_hip_bench_dist st = None"
    using hip_lift_detection_calibration [OF d] that rep_stage_fields(1) [OF r] by simp
qed

lemma hip_bench_dist_None:
  "hip_bench_dist height fr = None \<longleftrightarrow> pose_landmarks fr = None \<or> bench_box fr = None"
  by (simp add: hip_bench_dist_def split: option.splits)

lemma process_frame_baseline:
  assumes "process_frame fps height self st fr = (self', Inr st')"
  shows "baseline_hip_bench_dist st' =
           (case baseline_hip_bench_dist st of
              None \<Rightarrow> hip_bench_dist height fr
            | Some b \<Rightarrow> Some b)"
    and "dynamic_hip_threshold st' =
           (case (baseline_hip_bench_dist st, hip_bench_dist height fr) of
              (None, Some d) \<Rightarrow> Some (d * HIP_LIFT_RATIO)
            | _ \<Rightarrow> dynamic_hip_threshold st)"
    and "baseline_hip_bench_dist st = None \<Longrightarrow> hip_lift_status st' = hip_lift_status st"
proof -
  from assms obtain st1 where
    a: "analyze_pose height self (st\<lparr>frame_idx := frame_idx st + 1\<rparr>) fr = (self', Inr st1)"
    and s: "store_time_series fps height st1 fr = Inr st'"
    by (rule process_frame_Inr)
  note keep = store_time_series_Inr(2,4,5) [OF s]
  have "baseline_hip_bench_dist st' =
           (case baseline_hip_bench_dist st of
              None \<Rightarrow> hip_bench_dist height fr
            | Some b \<Rightarrow> Some b) \<and>
        dynamic_hip_threshold st' =
           (case (baseline_hip_bench_dist st, hip_bench_dist height fr) of
              (None, Some d) \<Rightarrow> Some (d * HIP_LIFT_RATIO)
            | _ \<Rightarrow> dynamic_hip_threshold st) \<and>
        (baseline_hip_bench_dist st = None \<longrightarrow> hip_lift_status st' = hip_lift_status st)"
  proof (cases "hip_bench_dist height fr")
    case None
    then have "pose_landmarks fr = None \<or> bench_box fr = None"
      by (simp add: hip_bench_dist_None)
    from analyze_pose_hip_skipped [OF a this] keep None
    show ?thesis by (simp split: option.splits)
  next
    case (Some d)
    then obtain lm bench where l: "pose_landmarks fr = Some lm"
      and b: "bench_box fr = Some bench"
      and d: "d = \<bar>current_hip_y height lm - real_of_int (box_y1 bench)\<bar>"
      by (auto simp add: hip_bench_dist_def split: option.splits)
    from analyze_pose_hip_checked [OF a l b] keep Some d
    show ?thesis by (simp split: option.splits)
  qed
  then show "baseline_hip_bench_dist st' =
           (case baseline_hip_bench_dist st of
              None \<Rightarrow> hip_bench_dist height fr
            | Some b \<Rightarrow> Some b)"
    and "dynamic_hip_threshold st' =
           (case (baseline_hip_bench_dist st, hip_bench_dist height fr) of
              (None, Some d) \<Rightarrow> Some (d * HIP_LIFT_RATIO)
            | _ \<Rightarrow> dynamic_hip_threshold st)"
    and "baseline_hip_bench_dist st = None \<Longrightarrow> hip_lift_status st' = hip_lift_status st"
    by simp_all
qed

lemma run_frames_baseline:
  assumes "run_frames fps height self st frs = (self', Inr st')"
  shows "baseline_hip_bench_dist st' =
           (case baseline_hip_bench_dist st of
              None \<Rightarrow> first_calibration height frs
            | Some b \<Rightarrow> Some b) \<and>
         dynamic_hip_threshold st' =
           (case (baseline_hip_bench_dist st, first_calibration height frs) of
              (None, Some d) \<Rightarrow> Some (d * HIP_LIFT_RATIO)
            | _ \<Rightarrow> dynamic_hip_threshold st)"
  using assms
proof (induction frs arbitrary: self st)
  case Nil
  then show ?case by (simp split: option.splits)
next
  case (Cons fr frs)
  from Cons.prems obtain s1 st1 where
    p: "process_frame fps height self st fr = (s1, Inr st1)"
    and r: "run_frames fps height s1 st1 frs = (self', Inr st')"
    by (rule run_frames_Cons_Inr)
  from Cons.IH [OF r] process_frame_baseline(1,2) [OF p]
  show ?case by (simp split: option.splits)
qed

lemma run_frames_no_latch_through_calibration:
  assumes "run_frames fps height self st frs = (self', Inr st')"
    and "baseline_hip_bench_dist st = None"
    and "first_calibration height (butlast frs) = None"
  shows "hip_lift_status st' = hip_lift_status st"
  using assms
proof (induction frs arbitrary: self st)
  case Nil
  then show ?case by simp
next
  case (Cons fr frs)
  from Cons.prems(1) obtain s1 st1 where
    p: "process_frame fps height self st fr = (s1, Inr st1)"
    and r: "run_frames fps height s1 st1 frs = (self', Inr st')"
    by (rule run_frames_Cons_Inr)
  note same = process_frame_baseline(3) [OF p Cons.prems(2)]
  show ?case
  proof (cases frs)
    case Nil
    with r same show ?thesis by simp
  next
    case (Cons a list)
    then have "butlast (fr # frs) = fr # butlast frs" by simp
    with Cons.prems(3) have "first_calibration height (fr # butlast frs) = None"
      by (simp only:)
    then have n: "hip_bench_dist height fr = None"
      and rest: "first_calibration height (butlast frs) = None"
      by (cases "hip_bench_dist height fr"; simp)+
    from process_frame_baseline(1) [OF p] Cons.prems(2) n
    have "baseline_hip_bench_dist st1 = None" by simp
    from Cons.IH [OF r this rest] same show ?thesis by simp
  qed
qed

text \<open>
  Claim C4 (single calibration). After any frames processed from a state \<open>st\<close>: a
  baseline that \<open>st\<close> holds is still the one held, with the threshold unchanged;
  with no baseline in \<open>st\<close>, the baseline is the hip-bench distance of the first frame
  that has both a pose and a bench box, and the threshold is that distance times
  0.5 (and there is none while no such frame has come). Later frames never change
  either. Up to and including the calibration frame, \<open>hip_lift_status\<close> is not changed.
\<close>

theorem single_calibration:
  assumes "run_frames fps height self st frs = (self', Inr st')"
  shows "baseline_hip_bench_dist st' =
           (case baseline_hip_bench_dist st of
              None \<Rightarrow> first_calibration height frs
            | Some b \<Rightarrow> Some b) \<and>
         dynamic_hip_threshold st' =
           (case (baseline_hip_bench_dist st, first_calibration height frs) of
              (None, Some d) \<Rightarrow> Some (d * HIP_LIFT_RATIO)
            | _ \<Rightarrow> dynamic_hip_threshold st) \<and>
         HIP_LIFT_RATIO = 0.5 \<and>
         (baseline_hip_bench_dist st = None \<and> first_calibration height (butlast frs) = None
            \<longrightarrow> hip_lift_status st' = hip_lift_status st)"
  using run_frames_baseline [OF assms] run_frames_no_latch_through_calibration [OF assms]
  by (simp add: HIP_LIFT_RATIO_def)

text \<open>
  The theorem on \<open>calibration_frames\<close>, after two and after three frames: the second
  frame calibrates (distance 100, threshold 50) and leaves the status OK; the third
  frame, at distance 200, leaves baseline and threshold as they are.
\<close>

theorem single_calibration_witness:
  "\<exists>self2 st2 self3 st3.
     run_frames 30 1000 init_analyzer init_run_state (take 2 calibration_frames)
       = (self2, Inr st2) \<and>
     run_frames 30 1000 init_analyzer init_run_state calibration_frames
       = (self3, Inr st3) \<and>
     first_calibration 1000 (butlast (take 2 calibration_frames)) = None \<and>
     first_calibration 1000 (take 2 calibration_frames) = Some 100 \<and>
     first_calibration 1000 calibration_frames = Some 100 \<and>
     hip_bench_dist 1000 (calibration_frames ! 2) = Some 200 \<and>
     baseline_hip_bench_dist st2 = Some 100 \<and> dynamic_hip_threshold st2 = Some 50 \<and>
     hip_lift_status st2 = STATUS_OK \<and>
     baseline_hip_bench_dist st3 = Some 100 \<and> dynamic_hip_threshold st3 = Some 50"
proof -
  have "\<exists>self2 st2. run_frames 30 1000 init_analyzer init_run_state
      (take 2 calibration_frames) = (self2, Inr st2)"
    by (simp add: model_defs example_defs calibration_frames_def)
  then obtain self2 st2 where
    r2: "run_frames 30 1000 init_analyzer init_run_state (take 2 calibration_frames)
           = (self2, Inr st2)"
    by blast
  have "\<exists>self3 st3. run_frames 30 1000 init_analyzer init_run_state calibration_frames
      = (self3, Inr st3)"
    by (simp add: model_defs example_defs calibration_frames_def)
  then obtain self3 st3 where
    r3: "run_frames 30 1000 init_analyzer init_run_state calibration_frames = (self3, Inr st3)"
    by blast
  have c: "first_calibration 1000 (butlast (take 2 calibration_frames)) = None"
    "first_calibration 1000 (take 2 calibration_frames) = Some 100"
    "first_calibration 1000 calibration_frames = Some 100"
    "hip_bench_dist 1000 (calibration_frames ! 2) = Some 200"
    by (simp_all add: hip_bench_dist_def model_defs example_defs calibration_frames_def)
  have i: "baseline_hip_bench_dist init_run_state = None"
    "hip_lift_status init_run_state = STATUS_OK"
    by (simp_all add: init_run_state_def)
  from single_calibration [OF r2] single_calibration [OF r3] r2 r3 c i
  show ?thesis by simp
qed

subsection \<open>Frames without a bench box\<close>

lemma process_frame_hip_skipped:
  assumes "process_frame fps height self st fr = (self', Inr st')"
    and "pose_landmarks fr = None \<or> bench_box fr = None"
  shows "baseline_hip_bench_dist st' = baseline_hip_bench_dist st \<and>
         dynamic_hip_threshold st' = dynamic_hip_threshold st \<and>
         hip_lift_status st' = hip_lift_status st"
proof -
  from assms(1) obtain st1 where
    a: "analyze_pose height self (st\<lparr>frame_idx := frame_idx st + 1\<rparr>) fr = (self', Inr st1)"
    and s: "store_time_series fps height st1 fr = Inr st'"
    by (rule process_frame_Inr)
  from analyze_pose_hip_skipped [OF a assms(2)] store_time_series_Inr(2,4,5) [OF s]
  show ?thesis by simp
qed

lemma process_frame_no_bench_total:
  assumes "bench_box fr = None" and "fps \<noteq> 0"
  shows "\<exists>self' st'. process_frame fps height self st fr = (self', Inr st')"
  using assms
  by (auto simp add: process_frame_def analyze_pose_def store_time_series_def py_truediv_def
      Let_def split: option.splits prod.splits)

lemma run_frames_no_bench:
  assumes "run_frames fps height self st frs = (self', Inr st')"
    and "\<forall>fr \<in> set frs. bench_box fr = None"
  shows "hip_lift_status st' = hip_lift_status st"
  using assms
proof (induction frs arbitrary: self st)
  case Nil
  then show ?case by simp
next
  case (Cons fr frs)
  from Cons.prems(1) obtain s1 st1 where
    p: "process_frame fps height self st fr = (s1, Inr st1)"
    and r: "run_frames fps height s1 st1 frs = (self', Inr st')"
    by (rule run_frames_Cons_Inr)
  from Cons.prems(2) have "pose_landmarks fr = None \<or> bench_box fr = None" by simp
  from process_frame_hip_skipped [OF p this] Cons.IH [OF r] Cons.prems(2)
  show ?case by simp
qed

lemma run_frames_no_bench_total:
  assumes "\<forall>fr \<in> set frs. bench_box fr = None" and "fps \<noteq> 0"
  shows "\<exists>self' st'. run_frames fps height self st frs = (self', Inr st')"
  using assms(1)
proof (induction frs arbitrary: self st)
  case Nil
  then show ?case by simp
next
  case (Cons fr frs)
  from Cons.prems have "bench_box fr = None" by simp
  from process_frame_no_bench_total [OF this assms(2)] obtain s1 st1 where
    p: "process_frame fps height self st fr = (s1, Inr st1)"
    by blast
  from Cons.prems have "\<forall>fr \<in> set frs. bench_box fr = None" by simp
  from Cons.IH [OF this] obtain self' st' where
    "run_frames fps height s1 st1 frs = (self', Inr st')"
    by blast
  with p show ?case by simp
qed

text \<open>
  Claim C7 (no bench, no hip-lift check). A frame without a pose or without a bench box
  leaves baseline, threshold and \<open>hip_lift_status\<close> unchanged. For a video whose
  frames all lack a bench box: \<open>hip_lift_status\<close> is OK after every prefix of the
  frames and in the returned dictionary, and the run does return a dictionary when
  the video opens, can be written and reports a nonzero \<open>fps\<close>.
\<close>

theorem hip_check_gated:
  assumes "\<forall>fr \<in> set (cap_frames v). bench_box fr = None"
  shows "(\<forall>k self_k st_k.
            run_frames (cap_fps v) (cap_height v) self init_run_state (take k (cap_frames v))
              = (self_k, Inr st_k) \<longrightarrow> hip_lift_status st_k = STATUS_OK) \<and>
         (\<forall>self' res. analyze_video self v = (self', Inr res) \<longrightarrow>
            res_hip_lift_status res = STATUS_OK \<and> \<not> res_hip_lift_detected res) \<and>
         (input_exists v \<and> model_exists v \<and> cap_is_opened v \<and> writer_is_opened v \<and>
          cap_fps v \<noteq> 0 \<longrightarrow> (\<exists>self' res. analyze_video self v = (self', Inr res))) \<and>
         (\<forall>fps height self0 st fr self1 st1.
            process_frame fps height self0 st fr = (self1, Inr st1) \<and>
            (pose_landmarks fr = None \<or> bench_box fr = None) \<longrightarrow>
            baseline_hip_bench_dist st1 = baseline_hip_bench_dist st \<and>
            dynamic_hip_threshold st1 = dynamic_hip_threshold st \<and>
            hip_lift_status st1 = hip_lift_status st)"
proof -
  have prefix: "hip_lift_status st_k = STATUS_OK"
    if "run_frames (cap_fps v) (cap_height v) self init_run_state (take k (cap_frames v))
          = (self_k, Inr st_k)" for k self_k st_k
  proof -
    from assms have "\<forall>fr \<in> set (take k (cap_frames v)). bench_box fr = None"
      by (meson in_set_takeD)
    from run_frames_no_bench [OF that this] show ?thesis
      by (simp add: init_run_state_def)
  qed
  have final: "res_hip_lift_status res = STATUS_OK \<and> \<not> res_hip_lift_detected res"
    if "analyze_video self v = (self', Inr res)" for self' res
  proof -
    from that obtain st where
      run: "run_frames (cap_fps v) (cap_height v) self init_run_state (cap_frames v)
              = (self', Inr st)"
      and res: "res = make_results v st"
      by (rule analyze_video_Inr)
    from run_frames_no_bench [OF run assms] show ?thesis
      by (simp add: res make_results_def init_run_state_def)
  qed
  have returns: "\<exists>self' res. analyze_video self v = (self', Inr res)"
    if "input_exists v \<and> model_exists v \<and> cap_is_opened v \<and> writer_is_opened v \<and>
        cap_fps v \<noteq> 0"
  proof -
    from that have "cap_fps v \<noteq> 0" by simp
    from run_frames_no_bench_total [OF assms this] obtain self' st' where
      "run_frames (cap_fps v) (cap_height v) self init_run_state (cap_frames v)
         = (self', Inr st')"
      by blast
    with that show ?thesis by (simp add: analyze_video_def)
  qed
  from prefix final returns process_frame_hip_skipped show ?thesis by blast
qed

text \<open>
  The theorem on \<open>benchless_frames\<close> at 30 frames per second: the hips move by 400
  pixels and the status stays OK.
\<close>

theorem hip_check_gated_witness:
  "list_all (\<lambda>fr. bench_box fr = None) benchless_frames \<and>
   (\<exists>self_k st_k self' res.
      run_frames 30 1000 init_analyzer init_run_state (take 2 benchless_frames)
        = (self_k, Inr st_k) \<and>
      hip_lift_status st_k = STATUS_OK \<and>
      analyze_video init_analyzer (example_video 30 benchless_frames) = (self', Inr res) \<and>
      res_hip_lift_status res = STATUS_OK \<and> \<not> res_hip_lift_detected res)"
proof -
  have all: "list_all (\<lambda>fr. bench_box fr = None) benchless_frames"
    by (simp add: benchless_frames_def example_defs)
  then have hyp: "\<forall>fr \<in> set (cap_frames (example_video 30 benchless_frames)).
      bench_box fr = None"
    by (simp add: example_video_fields list_all_iff)
  have "\<exists>self_k st_k. run_frames 30 1000 init_analyzer init_run_state
      (take 2 benchless_frames) = (self_k, Inr st_k)"
    by (simp add: model_defs example_defs benchless_frames_def)
  then obtain self_k st_k where
    k: "run_frames 30 1000 init_analyzer init_run_state (take 2 benchless_frames)
          = (self_k, Inr st_k)"
    by blast
  note g = hip_check_gated [OF hyp, of init_analyzer, unfolded example_video_fields]
  from g obtain self' res where
    a: "analyze_video init_analyzer (example_video 30 benchless_frames) = (self', Inr res)"
    by (auto simp add: example_video_fields)
  from g k a all show ?thesis by blast
qed

subsection \<open>The smoothing window\<close>

lemma analyze_pose_no_bar:
  assumes "analyze_pose height self st fr = (self', Inr st')"
    and "bar_box fr = None"
  shows "self' = self"
proof (cases "pose_landmarks fr")
  case None
  with assms(1) show ?thesis by (simp add: analyze_pose_no_pose)
next
  case (Some lm)
  from assms(1) Some obtain st2 where
    "(case bar_box fr of
        None \<Rightarrow> (self, st2)
      | Some bar \<Rightarrow> shallow_rep_detection bar (bench_box fr) (current_shoulder_y height lm)
          (current_hip_y height lm)
          (smoothed_elbow_y (deque_append SMOOTHING_WINDOW_SIZE (elbow_y_buffer st)
             (current_elbow_y height lm))) self st2) = (self', st')"
    by (rule analyze_pose_Some)
  with assms(2) show ?thesis by simp
qed

lemma last_window_append:
  "drop (length (drop (length xs - n) xs @ ys) - n) (drop (length xs - n) xs @ ys) =
   drop (length (xs @ ys) - n) (xs @ ys)"
  by (cases "length xs \<le> n") (auto simp add: add.commute)

lemma process_frame_buffer:
  assumes "process_frame fps height self st fr = (self', Inr st')"
  shows "elbow_y_buffer st' =
           (case pose_landmarks fr of
              None \<Rightarrow> elbow_y_buffer st
            | Some lm \<Rightarrow> deque_append SMOOTHING_WINDOW_SIZE (elbow_y_buffer st)
                           (current_elbow_y height lm))"
proof -
  from assms obtain st1 where
    a: "analyze_pose height self (st\<lparr>frame_idx := frame_idx st + 1\<rparr>) fr = (self', Inr st1)"
    and s: "store_time_series fps height st1 fr = Inr st'"
    by (rule process_frame_Inr)
  from analyze_pose_buffer [OF a] store_time_series_Inr(6) [OF s]
  show ?thesis by (cases "pose_landmarks fr") simp_all
qed

lemma process_frame_buffer_length:
  assumes "process_frame fps height self st fr = (self', Inr st')"
    and "length (elbow_y_buffer st) \<le> 5"
  shows "length (elbow_y_buffer st') \<le> 5"
  using process_frame_buffer [OF assms(1)] assms(2)
  by (cases "pose_landmarks fr") (simp_all add: deque_append_length SMOOTHING_WINDOW_SIZE_def)

lemma run_frames_buffer:
  assumes "run_frames fps height self st frs = (self', Inr st')"
    and "length (elbow_y_buffer st) \<le> 5"
  shows "elbow_y_buffer st' =
           drop (length (elbow_y_buffer st @ elbow_samples height frs) - 5)
             (elbow_y_buffer st @ elbow_samples height frs)"
  using assms
proof (induction frs arbitrary: self st)
  case Nil
  then show ?case by simp
next
  case (Cons fr frs)
  from Cons.prems(1) obtain s1 st1 where
    p: "process_frame fps height self st fr = (s1, Inr st1)"
    and r: "run_frames fps height s1 st1 frs = (self', Inr st')"
    by (rule run_frames_Cons_Inr)
  note b = process_frame_buffer [OF p]
  note l = process_frame_buffer_length [OF p Cons.prems(2)]
  show ?case
  proof (cases "pose_landmarks fr")
    case None
    with b Cons.IH [OF r l] show ?thesis by simp
  next
    case (Some lm)
    with b have "elbow_y_buffer st1 =
        drop (length (elbow_y_buffer st @ [current_elbow_y height lm]) - 5)
          (elbow_y_buffer st @ [current_elbow_y height lm])"
      by (simp add: deque_append_def SMOOTHING_WINDOW_SIZE_def Let_def)
    with Cons.IH [OF r l] Some
      last_window_append [of "elbow_y_buffer st @ [current_elbow_y height lm]" 5
        "elbow_samples height frs"]
    show ?thesis by simp
  qed
qed

text \<open>
  Claim C8 (smoothing window). After any frames of a run, the buffer holds at most 5
  samples, namely the last 5 elbow heights of the frames with a pose (all of them
  while there are fewer). On the next frame: without a pose, buffer and tracker are
  unchanged; with a pose, the sample is appended, the oldest one dropped when 5 were
  held, the buffer is not empty, and the elbow height that a rep start or a new
  minimum stores on this frame is the sum of the buffer divided by its length.
\<close>

theorem smoothing_window:
  assumes "run_frames fps height self init_run_state frs = (self1, Inr st1)"
    and "process_frame fps height self1 st1 fr = (self2, Inr st2)"
  shows "length (elbow_y_buffer st1) \<le> 5 \<and>
         elbow_y_buffer st1 =
           drop (length (elbow_samples height frs) - 5) (elbow_samples height frs) \<and>
         (case pose_landmarks fr of
            None \<Rightarrow> elbow_y_buffer st2 = elbow_y_buffer st1 \<and> self2 = self1
          | Some lm \<Rightarrow>
              elbow_y_buffer st2 =
                (if length (elbow_y_buffer st1) < 5
                 then elbow_y_buffer st1 @ [current_elbow_y height lm]
                 else tl (elbow_y_buffer st1) @ [current_elbow_y height lm]) \<and>
              elbow_y_buffer st2 \<noteq> [] \<and>
              (case bar_box fr of
                 None \<Rightarrow> self2 = self1
               | Some bar \<Rightarrow>
                   rep_start_cond self1
                     (current_bar_shoulder_dist bar (current_shoulder_y height lm)) \<or>
                   rep_progress_cond self1
                     (current_bar_shoulder_dist bar (current_shoulder_y height lm)) \<longrightarrow>
                   min_elbow_y_at_bottom self2 =
                     sum_list (elbow_y_buffer st2) / real (length (elbow_y_buffer st2))))"
proof -
  have i: "length (elbow_y_buffer init_run_state) \<le> 5"
    by (simp add: init_run_state_def)
  from run_frames_buffer [OF assms(1) i]
  have window: "elbow_y_buffer st1 =
      drop (length (elbow_samples height frs) - 5) (elbow_samples height frs)"
    by (simp add: init_run_state_def)
  then have bound: "length (elbow_y_buffer st1) \<le> 5" by simp
  from assms(2) obtain st1' where
    a: "analyze_pose height self1 (st1\<lparr>frame_idx := frame_idx st1 + 1\<rparr>) fr = (self2, Inr st1')"
    and s: "store_time_series fps height st1' fr = Inr st2"
    by (rule process_frame_Inr)
  note b = process_frame_buffer [OF assms(2)]
  have frame: "(case pose_landmarks fr of
            None \<Rightarrow> elbow_y_buffer st2 = elbow_y_buffer st1 \<and> self2 = self1
          | Some lm \<Rightarrow>
              elbow_y_buffer st2 =
                (if length (elbow_y_buffer st1) < 5
                 then elbow_y_buffer st1 @ [current_elbow_y height lm]
                 else tl (elbow_y_buffer st1) @ [current_elbow_y height lm]) \<and>
              elbow_y_buffer st2 \<noteq> [] \<and>
              (case bar_box fr of
                 None \<Rightarrow> self2 = self1
               | Some bar \<Rightarrow>
                   rep_start_cond self1
                     (current_bar_shoulder_dist bar (current_shoulder_y height lm)) \<or>
                   rep_progress_cond self1
                     (current_bar_shoulder_dist bar (current_shoulder_y height lm)) \<longrightarrow>
                   min_elbow_y_at_bottom self2 =
                     sum_list (elbow_y_buffer st2) / real (length (elbow_y_buffer st2))))"
  proof (cases "pose_landmarks fr")
    case None
    with a b show ?thesis by (simp add: analyze_pose_no_pose)
  next
    case (Some lm)
    let ?buf = "deque_append SMOOTHING_WINDOW_SIZE (elbow_y_buffer st1)
        (current_elbow_y height lm)"
    from b Some have buf: "elbow_y_buffer st2 = ?buf" by simp
    have shape: "?buf =
        (if length (elbow_y_buffer st1) < 5
         then elbow_y_buffer st1 @ [current_elbow_y height lm]
         else tl (elbow_y_buffer st1) @ [current_elbow_y height lm])"
      using deque_append_window [of "elbow_y_buffer st1" 5 "current_elbow_y height lm"] bound
      by (simp add: SMOOTHING_WINDOW_SIZE_def)
    have nonempty: "?buf \<noteq> []"
      by (simp add: deque_append_nonempty SMOOTHING_WINDOW_SIZE_def)
    have tracker: "(case bar_box fr of
                 None \<Rightarrow> self2 = self1
               | Some bar \<Rightarrow>
                   rep_start_cond self1
                     (current_bar_shoulder_dist bar (current_shoulder_y height lm)) \<or>
                   rep_progress_cond self1
                     (current_bar_shoulder_dist bar (current_shoulder_y height lm)) \<longrightarrow>
                   min_elbow_y_at_bottom self2 = sum_list ?buf / real (length ?buf))"
    proof (cases "bar_box fr")
      case None
      with analyze_pose_no_bar [OF a] show ?thesis by simp
    next
      case (Some bar)
      from a \<open>pose_landmarks fr = Some lm\<close> Some obtain st2' where
        m: "shallow_rep_detection bar (bench_box fr) (current_shoulder_y height lm)
           (current_hip_y height lm)
           (smoothed_elbow_y (deque_append SMOOTHING_WINDOW_SIZE
              (elbow_y_buffer (st1\<lparr>frame_idx := frame_idx st1 + 1\<rparr>))
              (current_elbow_y height lm))) self1 st2' = (self2, st1')"
        by (rule analyze_pose_bar)
      have "min_elbow_y_at_bottom self2 = sum_list ?buf / real (length ?buf)"
        if "rep_start_cond self1
              (current_bar_shoulder_dist bar (current_shoulder_y height lm)) \<or>
            rep_progress_cond self1
              (current_bar_shoulder_dist bar (current_shoulder_y height lm))"
        using that shallow_rep_detection_start(1) [OF m] shallow_rep_detection_progress(1) [OF m]
        by (auto simp add: smoothed_elbow_y_def)
      with Some show ?thesis by simp
    qed
    have shape': "elbow_y_buffer st2 =
        (if length (elbow_y_buffer st1) < 5
         then elbow_y_buffer st1 @ [current_elbow_y height lm]
         else tl (elbow_y_buffer st1) @ [current_elbow_y height lm])"
      using shape unfolding buf .
    have nonempty': "elbow_y_buffer st2 \<noteq> []"
      using nonempty unfolding buf .
    have tracker': "(case bar_box fr of
                 None \<Rightarrow> self2 = self1
               | Some bar \<Rightarrow>
                   rep_start_cond self1
                     (current_bar_shoulder_dist bar (current_shoulder_y height lm)) \<or>
                   rep_progress_cond self1
                     (current_bar_shoulder_dist bar (current_shoulder_y height lm)) \<longrightarrow>
                   min_elbow_y_at_bottom self2 =
                     sum_list (elbow_y_buffer st2) / real (length (elbow_y_buffer st2)))"
      using tracker unfolding buf .
    show ?thesis
      by (simp only: Some option.case) (intro conjI shape' nonempty' tracker')
  qed
  from bound window frame show ?thesis by simp
qed

text \<open>
  The theorem on \<open>smoothing_frames\<close>: after six frames the buffer is full, the seventh
  evicts the oldest sample and starts a rep with the mean 400; the third frame, which
  has no pose, leaves the buffer of the first two.
\<close>

theorem smoothing_window_witness:
  "\<exists>self1 st1 self2 st2 selfa sta selfb stb.
     run_frames 30 1000 init_analyzer init_run_state (take 6 smoothing_frames)
       = (self1, Inr st1) \<and>
     process_frame 30 1000 self1 st1 (smoothing_frames ! 6) = (self2, Inr st2) \<and>
     elbow_samples 1000 (take 6 smoothing_frames) = [100, 200, 300, 400, 500] \<and>
     elbow_y_buffer st1 = [100, 200, 300, 400, 500] \<and>
     elbow_y_buffer st2 = [200, 300, 400, 500, 600] \<and>
     min_elbow_y_at_bottom self2 = 400 \<and>
     run_frames 30 1000 init_analyzer init_run_state (take 2 smoothing_frames)
       = (selfa, Inr sta) \<and>
     process_frame 30 1000 selfa sta (smoothing_frames ! 2) = (selfb, Inr stb) \<and>
     pose_landmarks (smoothing_frames ! 2) = None \<and>
     elbow_y_buffer sta = [100, 200] \<and> elbow_y_buffer stb = [100, 200] \<and> selfb = selfa"
proof -
  have "\<exists>self1 st1. run_frames 30 1000 init_analyzer init_run_state (take 6 smoothing_frames)
      = (self1, Inr st1) \<and> self1 = init_analyzer \<and>
      (\<exists>self2 st2. process_frame 30 1000 self1 st1 (smoothing_frames ! 6) = (self2, Inr st2))"
    by (simp add: model_defs example_defs smoothing_frames_def)
  then obtain self1 st1 self2 st2 where
    r1: "run_frames 30 1000 init_analyzer init_run_state (take 6 smoothing_frames)
           = (self1, Inr st1)"
    and fresh: "self1 = init_analyzer"
    and p1: "process_frame 30 1000 self1 st1 (smoothing_frames ! 6) = (self2, Inr st2)"
    by blast
  have "\<exists>selfa sta. run_frames 30 1000 init_analyzer init_run_state (take 2 smoothing_frames)
      = (selfa, Inr sta) \<and>
      (\<exists>selfb stb. process_frame 30 1000 selfa sta (smoothing_frames ! 2) = (selfb, Inr stb))"
    by (simp add: model_defs example_defs smoothing_frames_def)
  then obtain selfa sta selfb stb where
    ra: "run_frames 30 1000 init_analyzer init_run_state (take 2 smoothing_frames)
           = (selfa, Inr sta)"
    and pa: "process_frame 30 1000 selfa sta (smoothing_frames ! 2) = (selfb, Inr stb)"
    by blast
  have e6: "elbow_samples 1000 (take 6 smoothing_frames) = [100, 200, 300, 400, 500]"
    and e2: "elbow_samples 1000 (take 2 smoothing_frames) = [100, 200]"
    by (simp_all add: model_defs example_defs smoothing_frames_def)
  have l6: "pose_landmarks (smoothing_frames ! 6) = Some (example_landmarks 0.5 0.6 0.3)"
    and b6: "bar_box (smoothing_frames ! 6) = Some (example_box 380 400)"
    and l2: "pose_landmarks (smoothing_frames ! 2) = None"
    by (simp_all add: example_defs smoothing_frames_def)
  have v: "current_elbow_y 1000 (example_landmarks 0.5 0.6 0.3) = 600"
    and c: "rep_start_cond init_analyzer
        (current_bar_shoulder_dist (example_box 380 400)
           (current_shoulder_y 1000 (example_landmarks 0.5 0.6 0.3)))"
    by (simp_all add: model_defs example_defs)
  from smoothing_window [OF r1 p1] e6 l6 b6 v c fresh
  have one: "elbow_y_buffer st1 = [100, 200, 300, 400, 500] \<and>
      elbow_y_buffer st2 = [200, 300, 400, 500, 600] \<and> min_elbow_y_at_bottom self2 = 400"
    by simp
  from smoothing_window [OF ra pa] e2 l2
  have two: "elbow_y_buffer sta = [100, 200] \<and> elbow_y_buffer stb = [100, 200] \<and>
      selfb = selfa"
    by simp
  from one two r1 p1 ra pa e6 l2 show ?thesis by blast
qed

subsection \<open>A second run on the same instance\<close>

text \<open>
  Claim C9 (tracker state survives the run). \<^verbatim>\<open>analyze_video\<close> does not reset the
  tracker attributes (a video without frames returns the instance as it was given).
  On \<open>unfinished_rep_frames\<close> a fresh instance ends with the rep open
  (\<open>rep_open_analyzer\<close>) and reports a good rep; the same video analysed again on
  that instance ends the leftover rep on its first frame, where the fresh instance
  starts one, and reports FAIL: ELBOW DEPTH and EGO LIFT.
\<close>

theorem leftover_tracker_state:
  "fst (analyze_video init_analyzer (example_video 30 unfinished_rep_frames))
     = rep_open_analyzer \<and>
   is_in_rep rep_open_analyzer \<and>
   (\<exists>r1 r2.
      snd (analyze_video init_analyzer (example_video 30 unfinished_rep_frames)) = Inr r1 \<and>
      snd (analyze_video rep_open_analyzer (example_video 30 unfinished_rep_frames)) = Inr r2 \<and>
      res_shallow_rep_status r1 = STATUS_OK \<and> res_overall_status r1 = STATUS_GOOD_REP \<and>
      res_shallow_rep_status r2 = STATUS_FAIL_SHALLOW \<and>
      res_overall_status r2 = STATUS_EGO_LIFT) \<and>
   is_in_rep (fst (process_frame 30 1000 init_analyzer init_run_state
     (hd unfinished_rep_frames))) \<and>
   \<not> is_in_rep (fst (process_frame 30 1000 rep_open_analyzer init_run_state
     (hd unfinished_rep_frames))) \<and>
   (\<forall>self. fst (analyze_video self (example_video 30 [])) = self)"
  by (simp add: model_defs example_defs unfinished_rep_frames_def rep_open_analyzer_def)

end
